theory Spec2Isabelle
  imports Main
begin

section \<open>Data model\<close>

subsection \<open>Python values and exceptions\<close>

text \<open>
  The values a caller can put into the \<open>dimensions_filter\<close> dictionary. The source only
  tells lists and strings apart (\<open>isinstance(values, list)\<close>, \<open>isinstance(values, str)\<close>);
  the other constructors stand for every other Python type.
\<close>

datatype py_value =
    PyList "string list"
  | PyStr string
  | PyInt int
  | PyBool bool
  | PyTuple "string list"
  | PyNone

text \<open>
  A Python dictionary keeps its entries in insertion order, and \<open>.items()\<close> walks them in
  that order: an association list (with pairwise distinct keys for a real dictionary).
\<close>

type_synonym 'v py_dict = "(string \<times> 'v) list"

text \<open>
  An exception: its class, the text \<open>str(e)\<close> gives, and the exception that was being
  handled when it was raised (Python sets \<open>__context__\<close> on a \<open>raise\<close> inside an
  \<open>except\<close> block).
\<close>

datatype py_exception =
  Exception (exn_class: string) (exn_str: string) (exn_context: "py_exception option")

definition RuntimeError :: "string \<Rightarrow> py_exception \<Rightarrow> py_exception" where
  "RuntimeError msg handled = Exception ''RuntimeError'' msg (Some handled)"

definition IndexError :: py_exception where
  "IndexError = Exception ''IndexError'' ''list index out of range'' None"

text \<open>\<open>x or []\<close> for an optional list argument whose default is \<open>None\<close>.\<close>

definition or_empty :: "'a list option \<Rightarrow> 'a list" where
  "or_empty x = (case x of None \<Rightarrow> [] | Some xs \<Rightarrow> xs)"

text \<open>\<open>str(n)\<close> for an integer, as an f-string renders it.\<close>

definition digit_char :: "nat \<Rightarrow> char" where
  "digit_char d = ''0123456789'' ! d"

fun str_nat :: "nat \<Rightarrow> string" where
  "str_nat n = (if n < 10 then [digit_char n] else str_nat (n div 10) @ [digit_char (n mod 10)])"

declare str_nat.simps [simp del]

definition str_int :: "int \<Rightarrow> string" where
  "str_int i = (if i < 0 then CHR ''-'' # str_nat (nat (- i)) else str_nat (nat i))"

subsection \<open>Filter expressions of the reporting API\<close>

text \<open>
  The message types come from the API's client library. A field the source does not pass
  to a constructor is \<open>None\<close> here: the source never passes \<open>case_sensitive\<close>.
\<close>

datatype match_type =
  MATCH_TYPE_UNSPECIFIED | EXACT | BEGINS_WITH | ENDS_WITH | CONTAINS | FULL_REGEXP | PARTIAL_REGEXP

datatype one_filter =
    InListFilter (in_list_values: "string list") (in_list_case_sensitive: "bool option")
  | StringFilter (string_match_type: match_type) (string_value: string)
      (string_case_sensitive: "bool option")

datatype filter_expression =
    Filter (field_name: string) (one_filter: one_filter)
  | And_group "filter_expression list"
  | Or_group "filter_expression list"

subsection \<open>Report requests\<close>

record run_report_request =
  req_property :: string
  req_date_ranges :: "(string \<times> string) list"
  req_dimensions :: "string list"
  req_metrics :: "string list"
  req_keep_empty_rows :: bool
  req_offset :: int
  req_limit :: int
  req_dimension_filter :: "filter_expression option"
  req_order_bys :: "string list option"

section \<open>ga4\_api: the module of functions\<close>

definition MAX_ROWS_PER_REQUEST :: int where
  "MAX_ROWS_PER_REQUEST = 100000"

text \<open>
  \<open>dimension_filtering\<close>: the loop over \<open>dimensions_filter.items()\<close>, appending to
  \<open>filter_expressions\<close>. An entry that is neither a list nor a string takes neither branch.
\<close>

fun dimension_filtering_loop ::
  "py_value py_dict \<Rightarrow> filter_expression list \<Rightarrow> filter_expression list" where
  "dimension_filtering_loop [] filter_expressions = filter_expressions"
| "dimension_filtering_loop ((dimension, values) # rest) filter_expressions =
     dimension_filtering_loop rest
       (case values of
          PyList vs \<Rightarrow> filter_expressions @ [Filter dimension (InListFilter vs None)]
        | PyStr s \<Rightarrow> filter_expressions @ [Filter dimension (StringFilter CONTAINS s None)]
        | _ \<Rightarrow> filter_expressions)"

definition dimension_filtering :: "py_value py_dict \<Rightarrow> filter_expression list" where
  "dimension_filtering dimensions_filter = dimension_filtering_loop dimensions_filter []"

text \<open>
  \<open>create_request\<close>. An optional argument is \<open>None\<close> when the caller leaves it out;
  \<open>offset\<close> then is 0 and \<open>limit\<close> the literal 100000. \<open>if dimensions_filter:\<close> and
  \<open>if order_bys:\<close> hold for a non-empty dictionary or list only.
\<close>

definition create_request ::
  "string \<Rightarrow> string \<Rightarrow> string \<Rightarrow> string list option \<Rightarrow> py_value py_dict option \<Rightarrow>
   string list option \<Rightarrow> string list option \<Rightarrow> int option \<Rightarrow> int option \<Rightarrow> run_report_request" where
  "create_request property_id start_date end_date dimensions dimensions_filter metrics order_bys
       offset limit =
     (let request_dict =
            \<lparr> req_property = ''properties/'' @ property_id,
              req_date_ranges = [(start_date, end_date)],
              req_dimensions = or_empty dimensions,
              req_metrics = or_empty metrics,
              req_keep_empty_rows = True,
              req_offset = (case offset of None \<Rightarrow> 0 | Some off \<Rightarrow> off),
              req_limit = (case limit of None \<Rightarrow> 100000 | Some lim \<Rightarrow> lim),
              req_dimension_filter = None,
              req_order_bys = None \<rparr>;
          request_dict =
            (if or_empty dimensions_filter \<noteq> []
             then request_dict
                    \<lparr> req_dimension_filter :=
                        Some (And_group (dimension_filtering (or_empty dimensions_filter))) \<rparr>
             else request_dict);
          request_dict =
            (if or_empty order_bys \<noteq> []
             then request_dict \<lparr> req_order_bys := Some (or_empty order_bys) \<rparr>
             else request_dict)
      in request_dict)"

section \<open>ga4\_app: the class GA4AnalyticsClient\<close>

record GA4AnalyticsClient =
  self_credentials_path :: "string option"
  self_property_id :: "string option"

definition app_MAX_ROWS_PER_REQUEST :: int where
  "app_MAX_ROWS_PER_REQUEST = 250000"

text \<open>\<open>_create_filter_expressions\<close>: the same loop as \<open>dimension_filtering\<close>.\<close>

fun app_create_filter_expressions_loop ::
  "py_value py_dict \<Rightarrow> filter_expression list \<Rightarrow> filter_expression list" where
  "app_create_filter_expressions_loop [] filter_expressions = filter_expressions"
| "app_create_filter_expressions_loop ((dimension, values) # rest) filter_expressions =
     app_create_filter_expressions_loop rest
       (case values of
          PyList vs \<Rightarrow> filter_expressions @ [Filter dimension (InListFilter vs None)]
        | PyStr s \<Rightarrow> filter_expressions @ [Filter dimension (StringFilter CONTAINS s None)]
        | _ \<Rightarrow> filter_expressions)"

definition app_create_filter_expressions :: "py_value py_dict \<Rightarrow> filter_expression list" where
  "app_create_filter_expressions dimensions_filter =
     app_create_filter_expressions_loop dimensions_filter []"

text \<open>
  \<open>_create_request\<close>. \<open>limit or self.MAX_ROWS_PER_REQUEST\<close> replaces \<open>None\<close> and 0;
  an f-string renders a \<open>property_id\<close> of \<open>None\<close> as the text \<open>None\<close>; without an
  ordering the dimensions, when there are any, become the ordering.
\<close>

definition app_create_request ::
  "GA4AnalyticsClient \<Rightarrow> string \<Rightarrow> string \<Rightarrow> string list option \<Rightarrow> string list option \<Rightarrow>
   py_value py_dict option \<Rightarrow> string list option \<Rightarrow> int option \<Rightarrow> int option \<Rightarrow> run_report_request" where
  "app_create_request self start_date end_date dimensions metrics dimensions_filter order_bys
       offset limit =
     (let dimensions = or_empty dimensions;
          metrics = or_empty metrics;
          limit = (case limit of None \<Rightarrow> app_MAX_ROWS_PER_REQUEST
                   | Some lim \<Rightarrow> if lim = 0 then app_MAX_ROWS_PER_REQUEST else lim);
          request_dict =
            \<lparr> req_property =
                ''properties/'' @ (case self_property_id self of None \<Rightarrow> ''None'' | Some p \<Rightarrow> p),
              req_date_ranges = [(start_date, end_date)],
              req_dimensions = dimensions,
              req_metrics = metrics,
              req_keep_empty_rows = True,
              req_offset = (case offset of None \<Rightarrow> 0 | Some off \<Rightarrow> off),
              req_limit = limit,
              req_dimension_filter = None,
              req_order_bys = None \<rparr>;
          request_dict =
            (if or_empty dimensions_filter \<noteq> []
             then request_dict
                    \<lparr> req_dimension_filter :=
                        Some (Or_group
                          (app_create_filter_expressions (or_empty dimensions_filter))) \<rparr>
             else request_dict);
          order_bys = (if or_empty order_bys = [] \<and> dimensions \<noteq> [] then dimensions
                       else or_empty order_bys);
          request_dict =
            (if order_bys \<noteq> []
             then request_dict \<lparr> req_order_bys := Some order_bys \<rparr>
             else request_dict)
      in request_dict)"


section \<open>The fetch capability and the paginators\<close>

text \<open>
  A row of a response: the \<open>.value\<close> texts of its dimension values and of its metric
  values, in the order of the response.
\<close>

record row =
  dimension_values :: "string list"
  metric_values :: "string list"

text \<open>
  The injected client is any deterministic capability: its answer to a request may depend
  on the requests it has served before. An answer is the rows of the response, or the
  exception \<open>run_report\<close> raised. \<open>run_report\<close> hands the request to the client and
  records the call, so that the calls of a run can be counted.
\<close>

type_synonym client = "run_report_request list \<Rightarrow> run_report_request \<Rightarrow> py_exception + row list"

definition run_report ::
  "client \<Rightarrow> run_report_request list \<Rightarrow> run_report_request \<Rightarrow>
   (py_exception + row list) \<times> run_report_request list" where
  "run_report client calls request = (client calls request, calls @ [request])"

text \<open>
  \<open>run_paginated_request\<close> of ga4\_api: the \<open>while True\<close> loop, which may run forever
  (the result then is \<open>None\<close>). The loop state is \<open>all_rows\<close>, \<open>offset\<close> and the calls made so
  far; the result is what the function returns or raises, with the calls made.
\<close>

partial_function (option) run_paginated_request_loop ::
  "client \<Rightarrow> string \<Rightarrow> string \<Rightarrow> string \<Rightarrow> string list option \<Rightarrow> py_value py_dict option \<Rightarrow>
   string list option \<Rightarrow> string list option \<Rightarrow> row list \<Rightarrow> int \<Rightarrow> run_report_request list \<Rightarrow>
   ((py_exception + row list) \<times> run_report_request list) option" where
  "run_paginated_request_loop client property_id start_date end_date dimensions dimensions_filter
       metrics order_bys all_rows offset calls =
     (let request = create_request property_id start_date end_date dimensions dimensions_filter
                      metrics order_bys (Some offset) (Some MAX_ROWS_PER_REQUEST)
      in case run_report client calls request of
           (Inl e, calls) \<Rightarrow>
             Some (Inl (RuntimeError
                          (''Failed to run request at offset '' @ str_int offset @ '': '' @ exn_str e)
                          e),
                   calls)
         | (Inr rows, calls) \<Rightarrow>
             if rows = [] then Some (Inr all_rows, calls)
             else run_paginated_request_loop client property_id start_date end_date dimensions
                    dimensions_filter metrics order_bys
                    (all_rows @ rows) (offset + MAX_ROWS_PER_REQUEST) calls)"

definition run_paginated_request ::
  "client \<Rightarrow> string \<Rightarrow> string \<Rightarrow> string \<Rightarrow> string list option \<Rightarrow> py_value py_dict option \<Rightarrow>
   string list option \<Rightarrow> string list option \<Rightarrow>
   ((py_exception + row list) \<times> run_report_request list) option" where
  "run_paginated_request client property_id start_date end_date dimensions dimensions_filter
       metrics order_bys =
     run_paginated_request_loop client property_id start_date end_date dimensions
       dimensions_filter metrics order_bys [] 0 []"

text \<open>
  \<open>_run_paginated_request\<close> of ga4\_app: the same loop with the class's request builder, its
  page size and its wording of the failure. The logging calls have no effect on the result.
\<close>

partial_function (option) app_run_paginated_request_loop ::
  "GA4AnalyticsClient \<Rightarrow> client \<Rightarrow> string \<Rightarrow> string \<Rightarrow> string list option \<Rightarrow>
   string list option \<Rightarrow> py_value py_dict option \<Rightarrow> string list option \<Rightarrow>
   row list \<Rightarrow> int \<Rightarrow> run_report_request list \<Rightarrow>
   ((py_exception + row list) \<times> run_report_request list) option" where
  "app_run_paginated_request_loop self client start_date end_date dimensions metrics
       dimensions_filter order_bys all_rows offset calls =
     (let request = app_create_request self start_date end_date dimensions metrics
                      dimensions_filter order_bys (Some offset) (Some app_MAX_ROWS_PER_REQUEST)
      in case run_report client calls request of
           (Inl e, calls) \<Rightarrow>
             Some (Inl (RuntimeError
                          (''API request failed at offset '' @ str_int offset @ '': '' @ exn_str e)
                          e),
                   calls)
         | (Inr rows, calls) \<Rightarrow>
             if rows = [] then Some (Inr all_rows, calls)
             else app_run_paginated_request_loop self client start_date end_date dimensions metrics
                    dimensions_filter order_bys
                    (all_rows @ rows) (offset + app_MAX_ROWS_PER_REQUEST) calls)"

definition app_run_paginated_request ::
  "GA4AnalyticsClient \<Rightarrow> client \<Rightarrow> string \<Rightarrow> string \<Rightarrow> string list option \<Rightarrow>
   string list option \<Rightarrow> py_value py_dict option \<Rightarrow> string list option \<Rightarrow>
   ((py_exception + row list) \<times> run_report_request list) option" where
  "app_run_paginated_request self client start_date end_date dimensions metrics
       dimensions_filter order_bys =
     app_run_paginated_request_loop self client start_date end_date dimensions metrics
       dimensions_filter order_bys [] 0 []"


section \<open>The tabulators\<close>

subsection \<open>Python sequences and dictionaries\<close>

text \<open>\<open>xs[i]\<close> for \<open>i\<close> from a \<open>range\<close>: past the end it raises \<open>IndexError\<close>.\<close>

definition py_getitem :: "'a list \<Rightarrow> nat \<Rightarrow> py_exception + 'a" where
  "py_getitem xs i = (if i < length xs then Inr (xs ! i) else Inl IndexError)"

text \<open>
  \<open>d[k] = v\<close>: a key already in the dictionary keeps its place and takes the new value,
  a new key goes to the end.
\<close>

fun dict_setitem :: "'v py_dict \<Rightarrow> string \<Rightarrow> 'v \<Rightarrow> 'v py_dict" where
  "dict_setitem [] k v = [(k, v)]"
| "dict_setitem ((k', v') # d) k v =
     (if k' = k then (k, v) # d else (k', v') # dict_setitem d k v)"

text \<open>\<open>d1 | d2\<close>: a copy of \<open>d1\<close> updated with the entries of \<open>d2\<close> in their order.\<close>

definition dict_or :: "'v py_dict \<Rightarrow> 'v py_dict \<Rightarrow> 'v py_dict" where
  "dict_or d1 d2 = fold (\<lambda>(k, v) d. dict_setitem d k v) d2 d1"

subsection \<open>Tables\<close>

text \<open>
  Modelled from the spec: the table type of the external data-frame library, which is not
  part of the repository. A table is kept as its records, each a dictionary from column name
  to cell; the columns are the keys of the records in the order of their first appearance.
  A cell is the text it was built from, or a date after the date coercion (\<open>NaT\<close> for a
  missing value).
\<close>

datatype cell = Str string | Date nat nat nat | NaT

datatype dataframe = DataFrame (df_records: "cell py_dict list")

definition pd_DataFrame :: "string py_dict list \<Rightarrow> dataframe" where
  "pd_DataFrame data = DataFrame (map (map (\<lambda>(k, v). (k, Str v))) data)"

fun add_columns :: "string list \<Rightarrow> string list \<Rightarrow> string list" where
  "add_columns columns [] = columns"
| "add_columns columns (k # ks) =
     add_columns (if k \<in> set columns then columns else columns @ [k]) ks"

definition df_columns :: "dataframe \<Rightarrow> string list" where
  "df_columns df = fold (\<lambda>record columns. add_columns columns (map fst record)) (df_records df) []"

subsection \<open>ga4\_api: convert\_response\_to\_dataframe\<close>

text \<open>
  A dictionary comprehension \<open>{keys[i]: vals[i].value for i in range(len(keys))}\<close>: the
  indices are taken in order, and the first index past the end of \<open>vals\<close> raises.
\<close>

fun dict_comprehension ::
  "string list \<Rightarrow> string list \<Rightarrow> nat list \<Rightarrow> string py_dict \<Rightarrow> py_exception + string py_dict" where
  "dict_comprehension keys vals [] d = Inr d"
| "dict_comprehension keys vals (i # rest) d =
     (case py_getitem keys i of
        Inl e \<Rightarrow> Inl e
      | Inr k \<Rightarrow>
          (case py_getitem vals i of
             Inl e \<Rightarrow> Inl e
           | Inr v \<Rightarrow> dict_comprehension keys vals rest (dict_setitem d k v)))"

text \<open>The element of the list comprehension: the two dictionaries joined by \<open>|\<close>.\<close>

definition response_row_dict ::
  "string list \<Rightarrow> string list \<Rightarrow> row \<Rightarrow> py_exception + string py_dict" where
  "response_row_dict dimensions metrics row =
     (case dict_comprehension dimensions (dimension_values row) [0..<length dimensions] [] of
        Inl e \<Rightarrow> Inl e
      | Inr d1 \<Rightarrow>
          (case dict_comprehension metrics (metric_values row) [0..<length metrics] [] of
             Inl e \<Rightarrow> Inl e
           | Inr d2 \<Rightarrow> Inr (dict_or d1 d2)))"

text \<open>The list comprehension \<open>[... for row in all_data]\<close>: the first row that raises ends it.\<close>

fun list_comprehension :: "('a \<Rightarrow> py_exception + 'b) \<Rightarrow> 'a list \<Rightarrow> py_exception + 'b list" where
  "list_comprehension f [] = Inr []"
| "list_comprehension f (x # xs) =
     (case f x of
        Inl e \<Rightarrow> Inl e
      | Inr y \<Rightarrow> (case list_comprehension f xs of Inl e \<Rightarrow> Inl e | Inr ys \<Rightarrow> Inr (y # ys)))"

definition convert_response_to_dataframe ::
  "row list \<Rightarrow> string list \<Rightarrow> string list \<Rightarrow> py_exception + dataframe" where
  "convert_response_to_dataframe all_data dimensions metrics =
     (case list_comprehension (response_row_dict dimensions metrics) all_data of
        Inl e \<Rightarrow> Inl (RuntimeError (''Failed to convert response to DataFrame: '' @ exn_str e) e)
      | Inr data \<Rightarrow> Inr (pd_DataFrame data))"

subsection \<open>ga4\_app: \_convert\_to\_dataframe\<close>

text \<open>
  \<open>for i, name in enumerate(names): row_dict[name] = values[i].value\<close>, for the dimensions
  and then for the metrics of one row.
\<close>

fun assign_values ::
  "(nat \<times> string) list \<Rightarrow> string list \<Rightarrow> string py_dict \<Rightarrow> py_exception + string py_dict" where
  "assign_values [] vals row_dict = Inr row_dict"
| "assign_values ((i, name) # rest) vals row_dict =
     (case py_getitem vals i of
        Inl e \<Rightarrow> Inl e
      | Inr v \<Rightarrow> assign_values rest vals (dict_setitem row_dict name v))"

definition app_row_dict ::
  "string list \<Rightarrow> string list \<Rightarrow> row \<Rightarrow> py_exception + string py_dict" where
  "app_row_dict dimensions metrics row =
     (case assign_values (enumerate 0 dimensions) (dimension_values row) [] of
        Inl e \<Rightarrow> Inl e
      | Inr row_dict \<Rightarrow> assign_values (enumerate 0 metrics) (metric_values row) row_dict)"

text \<open>The loop \<open>for row in all_data\<close> with \<open>data.append(row_dict)\<close>.\<close>

fun app_convert_loop ::
  "string list \<Rightarrow> string list \<Rightarrow> row list \<Rightarrow> string py_dict list \<Rightarrow>
   py_exception + string py_dict list" where
  "app_convert_loop dimensions metrics [] data = Inr data"
| "app_convert_loop dimensions metrics (row # rest) data =
     (case app_row_dict dimensions metrics row of
        Inl e \<Rightarrow> Inl e
      | Inr row_dict \<Rightarrow> app_convert_loop dimensions metrics rest (data @ [row_dict]))"

definition app_convert_to_dataframe ::
  "row list \<Rightarrow> string list \<Rightarrow> string list \<Rightarrow> py_exception + dataframe" where
  "app_convert_to_dataframe all_data dimensions metrics =
     (case app_convert_loop dimensions metrics all_data [] of
        Inl e \<Rightarrow> Inl (RuntimeError (''DataFrame conversion failed: '' @ exn_str e) e)
      | Inr data \<Rightarrow> Inr (pd_DataFrame data))"


section \<open>ga4\_app: get\_report and its date coercion\<close>

subsection \<open>Parsing a compact calendar date\<close>

text \<open>
  Modelled from the spec: the date parser of the external data-frame library
  (\<open>pd.to_datetime\<close> with \<open>format='%Y%m%d'\<close>), which is not part of the repository. The
  spec's words: a fixed compact numeric calendar format (YYYYMMDD) is reparsed into a date,
  so that \<open>20250601\<close> becomes June 1, 2025. A text of eight digits that names a day of the
  calendar parses to that day; any other text is a \<open>ValueError\<close>.
\<close>

definition digit_value :: "char \<Rightarrow> nat option" where
  "digit_value c = map_of (zip ''0123456789'' [0, 1, 2, 3, 4, 5, 6, 7, 8, 9]) c"

fun decimal_loop :: "nat \<Rightarrow> string \<Rightarrow> nat option" where
  "decimal_loop acc [] = Some acc"
| "decimal_loop acc (c # cs) =
     (case digit_value c of None \<Rightarrow> None | Some d \<Rightarrow> decimal_loop (10 * acc + d) cs)"

definition is_leap_year :: "nat \<Rightarrow> bool" where
  "is_leap_year y =
     (if y mod 400 = 0 then True else if y mod 100 = 0 then False else y mod 4 = 0)"

definition days_in_month :: "nat \<Rightarrow> nat \<Rightarrow> nat" where
  "days_in_month y m =
     (if m = 2 then (if is_leap_year y then 29 else 28)
      else if m = 4 \<or> m = 6 \<or> m = 9 \<or> m = 11 then 30
      else 31)"

definition valid_date :: "nat \<Rightarrow> nat \<Rightarrow> nat \<Rightarrow> bool" where
  "valid_date y m d = (1 \<le> y \<and> y \<le> 9999 \<and> 1 \<le> m \<and> m \<le> 12 \<and> 1 \<le> d \<and> d \<le> days_in_month y m)"

definition strptime_Ymd :: "string \<Rightarrow> (nat \<times> nat \<times> nat) option" where
  "strptime_Ymd s =
     (if length s = 8
      then (case (decimal_loop 0 (take 4 s), decimal_loop 0 (take 2 (drop 4 s)),
                  decimal_loop 0 (drop 6 s)) of
              (Some y, Some m, Some d) \<Rightarrow> if valid_date y m d then Some (y, m, d) else None
            | _ \<Rightarrow> None)
      else None)"

definition ValueError :: "string \<Rightarrow> py_exception" where
  "ValueError s =
     Exception ''ValueError'' (''time data '' @ s @ '' does not match format %Y%m%d'') None"

text \<open>One cell of the column: a missing value stays missing, a date stays a date.\<close>

definition to_datetime_cell :: "cell option \<Rightarrow> py_exception + cell" where
  "to_datetime_cell c =
     (case c of
        Some (Str s) \<Rightarrow>
          (case strptime_Ymd s of Some (y, m, d) \<Rightarrow> Inr (Date y m d) | None \<Rightarrow> Inl (ValueError s))
      | Some (Date y m d) \<Rightarrow> Inr (Date y m d)
      | _ \<Rightarrow> Inr NaT)"

definition to_datetime_Ymd :: "cell option list \<Rightarrow> py_exception + cell list" where
  "to_datetime_Ymd column = list_comprehension to_datetime_cell column"

text \<open>\<open>df[c]\<close> and \<open>df[c] = column\<close> on the records of a table.\<close>

definition df_getitem :: "dataframe \<Rightarrow> string \<Rightarrow> cell option list" where
  "df_getitem df c = map (\<lambda>record. map_of record c) (df_records df)"

definition df_setitem :: "dataframe \<Rightarrow> string \<Rightarrow> cell list \<Rightarrow> dataframe" where
  "df_setitem df c column =
     DataFrame (map (\<lambda>(record, v). dict_setitem record c v) (zip (df_records df) column))"

subsection \<open>get\_report\<close>

text \<open>
  The last step of \<open>get_report\<close>:
  \<open>if convert_date_columns and 'date' in df.columns: df['date'] = pd.to_datetime(...)\<close>.
  An exception of the parser is not caught.
\<close>

definition get_report_convert_dates :: "bool \<Rightarrow> dataframe \<Rightarrow> py_exception + dataframe" where
  "get_report_convert_dates convert_date_columns df =
     (if convert_date_columns \<and> ''date'' \<in> set (df_columns df)
      then (case to_datetime_Ymd (df_getitem df ''date'') of
              Inl e \<Rightarrow> Inl e
            | Inr column \<Rightarrow> Inr (df_setitem df ''date'' column))
      else Inr df)"

definition get_report ::
  "GA4AnalyticsClient \<Rightarrow> client \<Rightarrow> string \<Rightarrow> string \<Rightarrow> string list option \<Rightarrow>
   string list option \<Rightarrow> py_value py_dict option \<Rightarrow> string list option \<Rightarrow> bool \<Rightarrow>
   ((py_exception + dataframe) \<times> run_report_request list) option" where
  "get_report self client start_date end_date dimensions metrics dimensions_filter order_bys
       convert_date_columns =
     (let dimensions = or_empty dimensions;
          metrics = or_empty metrics
      in case app_run_paginated_request self client start_date end_date (Some dimensions)
                (Some metrics) dimensions_filter order_bys of
           None \<Rightarrow> None
         | Some (Inl e, calls) \<Rightarrow> Some (Inl e, calls)
         | Some (Inr all_data, calls) \<Rightarrow>
             (case app_convert_to_dataframe all_data dimensions metrics of
                Inl e \<Rightarrow> Some (Inl e, calls)
              | Inr df \<Rightarrow> Some (get_report_convert_dates convert_date_columns df, calls)))"

section \<open>Notions used to state the properties\<close>

subsection \<open>Filter predicates\<close>

text \<open>
  The predicate the specification gives for one entry of the filter mapping: membership
  for a list, substring containment for a string, none for any other value.
\<close>

definition entry_predicate :: "string \<Rightarrow> py_value \<Rightarrow> filter_expression option" where
  "entry_predicate field v =
     (case v of
        PyList vs \<Rightarrow> Some (Filter field (InListFilter vs None))
      | PyStr s \<Rightarrow> Some (Filter field (StringFilter CONTAINS s None))
      | _ \<Rightarrow> None)"

definition is_list :: "py_value \<Rightarrow> bool" where
  "is_list v = (case v of PyList _ \<Rightarrow> True | _ \<Rightarrow> False)"

definition is_str :: "py_value \<Rightarrow> bool" where
  "is_str v = (case v of PyStr _ \<Rightarrow> True | _ \<Rightarrow> False)"

definition is_membership :: "filter_expression \<Rightarrow> bool" where
  "is_membership e = (case e of Filter _ (InListFilter _ _) \<Rightarrow> True | _ \<Rightarrow> False)"

text \<open>A containment predicate that asks the API for a case-sensitive match.\<close>

definition case_sensitive_contains :: "string \<Rightarrow> string \<Rightarrow> filter_expression" where
  "case_sensitive_contains field s = Filter field (StringFilter CONTAINS s (Some True))"

subsection \<open>Pages\<close>

text \<open>The request of call number \<open>i + 1\<close> of a paginator: the one at offset \<open>i\<close> pages.\<close>

definition page_request ::
  "string \<Rightarrow> string \<Rightarrow> string \<Rightarrow> string list option \<Rightarrow> py_value py_dict option \<Rightarrow>
   string list option \<Rightarrow> string list option \<Rightarrow> nat \<Rightarrow> run_report_request" where
  "page_request property_id start_date end_date dimensions dimensions_filter metrics order_bys i =
     create_request property_id start_date end_date dimensions dimensions_filter metrics order_bys
       (Some (int i * MAX_ROWS_PER_REQUEST)) (Some MAX_ROWS_PER_REQUEST)"

definition app_page_request ::
  "GA4AnalyticsClient \<Rightarrow> string \<Rightarrow> string \<Rightarrow> string list option \<Rightarrow> string list option \<Rightarrow>
   py_value py_dict option \<Rightarrow> string list option \<Rightarrow> nat \<Rightarrow> run_report_request" where
  "app_page_request self start_date end_date dimensions metrics dimensions_filter order_bys i =
     app_create_request self start_date end_date dimensions metrics dimensions_filter order_bys
       (Some (int i * app_MAX_ROWS_PER_REQUEST)) (Some app_MAX_ROWS_PER_REQUEST)"

text \<open>
  The client answers the successive requests \<open>request 0\<close>, \<open>request 1\<close>, ... with the given
  pages: page \<open>i\<close> is its answer to \<open>request i\<close> after it has served the requests before.
\<close>

definition answers_with_pages ::
  "client \<Rightarrow> (nat \<Rightarrow> run_report_request) \<Rightarrow> row list list \<Rightarrow> bool" where
  "answers_with_pages client request pages =
     list_all (\<lambda>i. client (map request [0..<i]) (request i) = Inr (pages ! i)) [0..<length pages]"

text \<open>Example clients: a source of two full pages, and one that fails on its second call.\<close>

definition example_row :: row where
  "example_row = \<lparr>dimension_values = [''20250601''], metric_values = [''7'']\<rparr>"

definition two_page_client :: "nat \<Rightarrow> client" where
  "two_page_client page_size calls request =
     (if req_offset request < 2 * int page_size then Inr (replicate page_size example_row)
      else Inr [])"

definition failing_client :: client where
  "failing_client calls request =
     (if calls = [] then Inr [example_row]
      else Inl (Exception ''ServiceUnavailable'' ''503 backend error'' None))"

subsection \<open>Records\<close>

text \<open>Assigning a sequence of entries to a dictionary, one after the other.\<close>

definition assign_all :: "'v py_dict \<Rightarrow> 'v py_dict \<Rightarrow> 'v py_dict" where
  "assign_all kvs d = fold (\<lambda>(k, v) d. dict_setitem d k v) kvs d"

text \<open>A row has a value for every dimension name and for every metric name.\<close>

definition row_fits :: "string list \<Rightarrow> string list \<Rightarrow> row \<Rightarrow> bool" where
  "row_fits dimensions metrics row =
     (length dimensions \<le> length (dimension_values row)
      \<and> length metrics \<le> length (metric_values row))"

definition api_record :: "string list \<Rightarrow> string list \<Rightarrow> row \<Rightarrow> string py_dict" where
  "api_record dimensions metrics row =
     dict_or (assign_all (zip dimensions (dimension_values row)) [])
             (assign_all (zip metrics (metric_values row)) [])"

definition app_record :: "string list \<Rightarrow> string list \<Rightarrow> row \<Rightarrow> string py_dict" where
  "app_record dimensions metrics row =
     assign_all (zip metrics (metric_values row))
       (assign_all (zip dimensions (dimension_values row)) [])"

text \<open>
  The record the specification describes for a row: the names zipped positionally with the
  row's values.
\<close>

definition tabulated :: "string list \<Rightarrow> string list \<Rightarrow> row \<Rightarrow> cell py_dict" where
  "tabulated dimensions metrics row =
     zip (dimensions @ metrics) (map Str (dimension_values row @ metric_values row))"

subsection \<open>Calendar dates\<close>

text \<open>The compact text of a calendar date: four digits of the year, two of the month, two of the day.\<close>

definition yyyymmdd :: "nat \<Rightarrow> nat \<Rightarrow> nat \<Rightarrow> string" where
  "yyyymmdd y m d =
     [digit_char (y div 1000 mod 10), digit_char (y div 100 mod 10), digit_char (y div 10 mod 10),
      digit_char (y mod 10),
      digit_char (m div 10 mod 10), digit_char (m mod 10),
      digit_char (d div 10 mod 10), digit_char (d mod 10)]"

definition coerced :: "cell option \<Rightarrow> cell" where
  "coerced c = (case to_datetime_cell c of Inr v \<Rightarrow> v | Inl e \<Rightarrow> NaT)"

text \<open>An example client for a report by day: one page of two rows, then an empty page.\<close>

definition dated_rows :: "row list" where
  "dated_rows =
     [\<lparr>dimension_values = [''20250601''], metric_values = [''7'']\<rparr>,
      \<lparr>dimension_values = [''20251231''], metric_values = [''12'']\<rparr>]"

definition dated_client :: client where
  "dated_client calls request = (if req_offset request = 0 then Inr dated_rows else Inr [])"


section \<open>The filter builders\<close>

lemma dimension_filtering_loop_eq:
  "dimension_filtering_loop d acc =
     acc @ List.map_filter (\<lambda>(field, v). entry_predicate field v) d"
  by (induction d acc rule: dimension_filtering_loop.induct)
     (simp_all add: List.map_filter_simps entry_predicate_def split: py_value.splits)

lemma app_create_filter_expressions_loop_eq:
  "app_create_filter_expressions_loop d acc =
     acc @ List.map_filter (\<lambda>(field, v). entry_predicate field v) d"
  by (induction d acc rule: app_create_filter_expressions_loop.induct)
     (simp_all add: List.map_filter_simps entry_predicate_def split: py_value.splits)

lemma dimension_filtering_eq:
  "dimension_filtering d = List.map_filter (\<lambda>(field, v). entry_predicate field v) d"
  by (simp add: dimension_filtering_def dimension_filtering_loop_eq)

lemma app_create_filter_expressions_eq:
  "app_create_filter_expressions d = dimension_filtering d"
  by (simp add: dimension_filtering_eq app_create_filter_expressions_def
        app_create_filter_expressions_loop_eq)

lemma map_filter_entry_length:
  "length (List.map_filter (\<lambda>(field, v). entry_predicate field v) d) =
     length (filter (\<lambda>(field, v). is_list v \<or> is_str v) d)"
proof (induction d)
  case Nil
  show ?case by (simp add: List.map_filter_simps)
next
  case (Cons a d)
  obtain field v where a: "a = (field, v)" by (cases a)
  show ?case
    using Cons
    by (cases v)
       (simp_all add: a List.map_filter_simps entry_predicate_def is_list_def is_str_def)
qed

lemma map_filter_entry_all_lists:
  "list_all (\<lambda>(field, v). is_list v) d \<Longrightarrow>
     List.map_filter (\<lambda>(field, v). entry_predicate field v) d =
       map (\<lambda>(field, v). Filter field (InListFilter (case v of PyList vs \<Rightarrow> vs | _ \<Rightarrow> []) None)) d"
  by (induction d)
     (auto simp: List.map_filter_simps entry_predicate_def is_list_def split: py_value.splits)

text \<open>
  Claim C3, as stated, asks for a case-sensitive containment predicate for a string value.
  Neither builder passes a case-sensitivity flag: for the mapping \<open>{"country": "Pol"}\<close> the
  predicate produced has the flag unset, so it is not the case-sensitive one.
\<close>

theorem filter_builder_case_sensitive_counterexample:
  "dimension_filtering [(''country'', PyStr ''Pol'')] =
       [Filter ''country'' (StringFilter CONTAINS ''Pol'' None)]
   \<and> dimension_filtering [(''country'', PyStr ''Pol'')] \<noteq>
       [case_sensitive_contains ''country'' ''Pol'']
   \<and> app_create_filter_expressions [(''country'', PyStr ''Pol'')] \<noteq>
       [case_sensitive_contains ''country'' ''Pol'']"
  by (simp add: dimension_filtering_def app_create_filter_expressions_def
        case_sensitive_contains_def)

text \<open>
  Claim C3, amended. For every filter mapping, both filter builders produce, in the order
  of the mapping, one predicate per entry whose value is a list or a string: a membership
  (in-list) predicate for a list, and for a string a substring-containment predicate
  (match type CONTAINS) on which no case-sensitivity flag is set. Every entry with a value
  of another type is skipped and no error is raised. When every value is a list, the number
  of predicates is the size of the mapping and each is a membership predicate.
\<close>

theorem filter_builder_predicates:
  "dimension_filtering d = List.map_filter (\<lambda>(field, v). entry_predicate field v) d
   \<and> app_create_filter_expressions d = dimension_filtering d
   \<and> length (dimension_filtering d) = length (filter (\<lambda>(field, v). is_list v \<or> is_str v) d)
   \<and> ((\<forall>(field, v) \<in> set d. is_list v) \<longrightarrow>
        length (dimension_filtering d) = length d
        \<and> (\<forall>e \<in> set (dimension_filtering d). is_membership e))"
proof -
  have len: "length (dimension_filtering d) =
      length (filter (\<lambda>(field, v). is_list v \<or> is_str v) d)"
    by (simp add: dimension_filtering_eq map_filter_entry_length)
  have lists: "length (dimension_filtering d) = length d
      \<and> (\<forall>e \<in> set (dimension_filtering d). is_membership e)"
    if "\<forall>(field, v) \<in> set d. is_list v"
  proof -
    from that have "list_all (\<lambda>(field, v). is_list v) d"
      by (simp add: list_all_iff)
    then have "dimension_filtering d =
        map (\<lambda>(field, v). Filter field (InListFilter (case v of PyList vs \<Rightarrow> vs | _ \<Rightarrow> []) None)) d"
      by (simp add: dimension_filtering_eq map_filter_entry_all_lists)
    then show ?thesis
      by (auto simp: is_membership_def)
  qed
  from dimension_filtering_eq [of d] app_create_filter_expressions_eq [of d] len lists
  show ?thesis by blast
qed

theorem filter_builder_predicates_witness:
  "dimension_filtering
      [(''continent'', PyList [''Europe'', ''Asia'']), (''country'', PyList [''PL''])] =
     [Filter ''continent'' (InListFilter [''Europe'', ''Asia''] None),
      Filter ''country'' (InListFilter [''PL''] None)]
   \<and> length (dimension_filtering
        [(''continent'', PyList [''Europe'', ''Asia'']), (''country'', PyList [''PL''])]) = 2
   \<and> list_all is_membership (dimension_filtering
        [(''continent'', PyList [''Europe'', ''Asia'']), (''country'', PyList [''PL''])])"
  using filter_builder_predicates
    [of "[(''continent'', PyList [''Europe'', ''Asia'']), (''country'', PyList [''PL''])]"]
  by (simp add: is_list_def List.map_filter_simps entry_predicate_def is_membership_def)

section \<open>The request builders\<close>

text \<open>
  Claim C4. Each request builder puts all filter predicates of a request under one group
  operator, and the two disagree on it: for every non-empty filter mapping
  \<open>create_request\<close> wraps the predicates in an AND group and \<open>_create_request\<close> wraps the
  same predicates in an OR group, so the two requests differ whatever the other arguments
  are.
\<close>

theorem request_filter_group_operator:
  "df \<noteq> [] \<Longrightarrow>
     req_dimension_filter
       (create_request pid sd ed dims (Some df) mets obs off lim) =
         Some (And_group (dimension_filtering df))
   \<and> req_dimension_filter
       (app_create_request self sd' ed' dims' mets' (Some df) obs' off' lim') =
         Some (Or_group (dimension_filtering df))
   \<and> create_request pid sd ed dims (Some df) mets obs off lim \<noteq>
       app_create_request self sd' ed' dims' mets' (Some df) obs' off' lim'"
proof -
  assume ne: "df \<noteq> []"
  have a: "req_dimension_filter (create_request pid sd ed dims (Some df) mets obs off lim) =
      Some (And_group (dimension_filtering df))"
    using ne by (simp add: create_request_def Let_def or_empty_def)
  have b: "req_dimension_filter
      (app_create_request self sd' ed' dims' mets' (Some df) obs' off' lim') =
      Some (Or_group (dimension_filtering df))"
    using ne
    by (simp add: app_create_request_def Let_def or_empty_def app_create_filter_expressions_eq)
  have "req_dimension_filter (create_request pid sd ed dims (Some df) mets obs off lim) \<noteq>
      req_dimension_filter (app_create_request self sd' ed' dims' mets' (Some df) obs' off' lim')"
    by (simp only: a b) simp
  then have c: "create_request pid sd ed dims (Some df) mets obs off lim \<noteq>
       app_create_request self sd' ed' dims' mets' (Some df) obs' off' lim'"
    by (rule contrapos_nn) simp
  from a b c show ?thesis by blast
qed

theorem request_filter_group_operator_witness:
  "req_dimension_filter
     (create_request ''123'' ''30daysAgo'' ''today'' (Some [''date''])
        (Some [(''continent'', PyList [''Europe''])]) (Some [''sessions'']) None (Some 0)
        (Some 100000)) =
       Some (And_group [Filter ''continent'' (InListFilter [''Europe''] None)])
   \<and> req_dimension_filter
     (app_create_request \<lparr>self_credentials_path = None, self_property_id = Some ''123''\<rparr>
        ''30daysAgo'' ''today'' (Some [''date'']) (Some [''sessions''])
        (Some [(''continent'', PyList [''Europe''])]) None (Some 0) (Some 100000)) =
       Some (Or_group [Filter ''continent'' (InListFilter [''Europe''] None)])"
  using request_filter_group_operator
    [of "[(''continent'', PyList [''Europe''])]" "''123''" "''30daysAgo''" "''today''"
        "Some [''date'']" "Some [''sessions'']" None "Some 0" "Some 100000"
        "\<lparr>self_credentials_path = None, self_property_id = Some ''123''\<rparr>"
        "''30daysAgo''" "''today''" "Some [''date'']" "Some [''sessions'']" None "Some 0"
        "Some 100000"]
  by (simp add: dimension_filtering_def)

text \<open>
  Claim C5, as stated, caps the limit of every request at the implementation's maximum.
  Neither builder compares the limit with its maximum: an explicit limit of 200000 reaches
  the request of \<open>create_request\<close> and one of 300000 the request of \<open>_create_request\<close>.
\<close>

theorem request_limit_cap_counterexample:
  "req_limit (create_request ''123'' ''30daysAgo'' ''today'' None None None None None
      (Some 200000)) = 200000
   \<and> \<not> req_limit (create_request ''123'' ''30daysAgo'' ''today'' None None None None None
          (Some 200000)) \<le> MAX_ROWS_PER_REQUEST
   \<and> req_limit
       (app_create_request \<lparr>self_credentials_path = None, self_property_id = Some ''123''\<rparr>
          ''30daysAgo'' ''today'' None None None None None (Some 300000)) = 300000
   \<and> \<not> req_limit
       (app_create_request \<lparr>self_credentials_path = None, self_property_id = Some ''123''\<rparr>
          ''30daysAgo'' ''today'' None None None None None (Some 300000))
        \<le> app_MAX_ROWS_PER_REQUEST"
  by (simp add: create_request_def app_create_request_def Let_def or_empty_def
        MAX_ROWS_PER_REQUEST_def app_MAX_ROWS_PER_REQUEST_def)

text \<open>
  Claim C5, amended. The limit of a request is the limit the caller supplies, passed
  through unchanged; the implementation's maximum (100,000 in ga4\_api, 250,000 in
  ga4\_app) is the limit only when the caller supplies none (in ga4\_app also when the
  caller supplies 0), and it is what each paginator supplies for every page. So the limit
  of a request is at most the maximum exactly when the caller's limit, if there is one, is.
\<close>

theorem request_limit_passed_through:
  "req_limit (create_request pid sd ed dims df mets obs off lim) =
     (case lim of None \<Rightarrow> MAX_ROWS_PER_REQUEST | Some l \<Rightarrow> l)
   \<and> req_limit (app_create_request self sd ed dims mets df obs off lim) =
     (case lim of None \<Rightarrow> app_MAX_ROWS_PER_REQUEST
      | Some l \<Rightarrow> if l = 0 then app_MAX_ROWS_PER_REQUEST else l)
   \<and> (req_limit (create_request pid sd ed dims df mets obs off lim) \<le> MAX_ROWS_PER_REQUEST) =
     (case lim of None \<Rightarrow> True | Some l \<Rightarrow> l \<le> MAX_ROWS_PER_REQUEST)
   \<and> (req_limit (app_create_request self sd ed dims mets df obs off lim)
        \<le> app_MAX_ROWS_PER_REQUEST) =
     (case lim of None \<Rightarrow> True | Some l \<Rightarrow> l \<le> app_MAX_ROWS_PER_REQUEST)
   \<and> req_limit (page_request pid sd ed dims df mets obs i) = MAX_ROWS_PER_REQUEST
   \<and> req_limit (app_page_request self sd ed dims mets df obs i) = app_MAX_ROWS_PER_REQUEST"
  by (simp add: create_request_def app_create_request_def page_request_def
        app_page_request_def Let_def MAX_ROWS_PER_REQUEST_def app_MAX_ROWS_PER_REQUEST_def
        split: option.splits)

theorem request_limit_passed_through_witness:
  "req_limit (create_request ''123'' ''30daysAgo'' ''today'' None None None None None
      (Some 50)) = 50
   \<and> req_limit (create_request ''123'' ''30daysAgo'' ''today'' None None None None None None)
       = 100000
   \<and> req_limit
       (app_create_request \<lparr>self_credentials_path = None, self_property_id = Some ''123''\<rparr>
          ''30daysAgo'' ''today'' None None None None None (Some 0)) = 250000"
  using request_limit_passed_through
      [of "''123''" "''30daysAgo''" "''today''" None None None None None "Some 50"]
    request_limit_passed_through
      [of "''123''" "''30daysAgo''" "''today''" None None None None None None]
    request_limit_passed_through
      [of _ "''30daysAgo''" "''today''" None None None None None "Some 0"
          "\<lparr>self_credentials_path = None, self_property_id = Some ''123''\<rparr>"]
  by (simp add: MAX_ROWS_PER_REQUEST_def app_MAX_ROWS_PER_REQUEST_def)

text \<open>
  Claim C6. For an empty filter mapping (and for none at all) the request of either
  builder has no \<open>dimension_filter\<close> field: the field is left out, not set to an empty
  group.
\<close>

theorem empty_filter_mapping_omits_filter:
  "req_dimension_filter (create_request pid sd ed dims (Some []) mets obs off lim) = None
   \<and> req_dimension_filter (create_request pid sd ed dims None mets obs off lim) = None
   \<and> req_dimension_filter (app_create_request self sd ed dims mets (Some []) obs off lim) = None
   \<and> req_dimension_filter (app_create_request self sd ed dims mets None obs off lim) = None"
  by (simp add: create_request_def app_create_request_def Let_def or_empty_def)

theorem empty_filter_mapping_omits_filter_witness:
  "req_dimension_filter
     (create_request ''123'' ''30daysAgo'' ''today'' (Some [''date'']) (Some [])
        (Some [''sessions'']) None (Some 0) (Some 100000)) = None
   \<and> req_dimension_filter
     (app_create_request \<lparr>self_credentials_path = None, self_property_id = Some ''123''\<rparr>
        ''30daysAgo'' ''today'' (Some [''date'']) (Some [''sessions'']) (Some []) None (Some 0)
        (Some 250000)) = None"
  using empty_filter_mapping_omits_filter
    [of "''123''" "''30daysAgo''" "''today''" "Some [''date'']" "Some [''sessions'']" None
        "Some 0" "Some 100000"
        "\<lparr>self_credentials_path = None, self_property_id = Some ''123''\<rparr>"]
    empty_filter_mapping_omits_filter
    [of "''123''" "''30daysAgo''" "''today''" "Some [''date'']" "Some [''sessions'']" None
        "Some 0" "Some 250000"
        "\<lparr>self_credentials_path = None, self_property_id = Some ''123''\<rparr>"]
  by simp

section \<open>The paginators\<close>

subsection \<open>One turn of each loop\<close>

lemma run_paginated_request_loop_unfold:
  "run_paginated_request_loop client pid sd ed dims df mets obs all_rows
       (int i * MAX_ROWS_PER_REQUEST) calls =
     (case client calls (page_request pid sd ed dims df mets obs i) of
        Inl e \<Rightarrow>
          Some (Inl (RuntimeError
                  (''Failed to run request at offset '' @ str_int (int i * MAX_ROWS_PER_REQUEST)
                     @ '': '' @ exn_str e) e),
                calls @ [page_request pid sd ed dims df mets obs i])
      | Inr rows \<Rightarrow>
          if rows = [] then Some (Inr all_rows, calls @ [page_request pid sd ed dims df mets obs i])
          else run_paginated_request_loop client pid sd ed dims df mets obs (all_rows @ rows)
                 (int (Suc i) * MAX_ROWS_PER_REQUEST)
                 (calls @ [page_request pid sd ed dims df mets obs i]))"
  by (subst run_paginated_request_loop.simps)
     (simp add: run_report_def page_request_def Let_def algebra_simps split: sum.splits)

lemma app_run_paginated_request_loop_unfold:
  "app_run_paginated_request_loop self client sd ed dims mets df obs all_rows
       (int i * app_MAX_ROWS_PER_REQUEST) calls =
     (case client calls (app_page_request self sd ed dims mets df obs i) of
        Inl e \<Rightarrow>
          Some (Inl (RuntimeError
                  (''API request failed at offset '' @ str_int (int i * app_MAX_ROWS_PER_REQUEST)
                     @ '': '' @ exn_str e) e),
                calls @ [app_page_request self sd ed dims mets df obs i])
      | Inr rows \<Rightarrow>
          if rows = []
          then Some (Inr all_rows, calls @ [app_page_request self sd ed dims mets df obs i])
          else app_run_paginated_request_loop self client sd ed dims mets df obs (all_rows @ rows)
                 (int (Suc i) * app_MAX_ROWS_PER_REQUEST)
                 (calls @ [app_page_request self sd ed dims mets df obs i]))"
  by (subst app_run_paginated_request_loop.simps)
     (simp add: run_report_def app_page_request_def Let_def algebra_simps split: sum.splits)

subsection \<open>After k non-empty pages\<close>

lemma run_paginated_request_loop_pages:
  assumes "\<forall>i<k. client (map (page_request pid sd ed dims df mets obs) [0..<i])
                     (page_request pid sd ed dims df mets obs i) = Inr (pages i)
                  \<and> pages i \<noteq> []"
  shows "run_paginated_request_loop client pid sd ed dims df mets obs [] 0 [] =
         run_paginated_request_loop client pid sd ed dims df mets obs
           (concat (map pages [0..<k])) (int k * MAX_ROWS_PER_REQUEST)
           (map (page_request pid sd ed dims df mets obs) [0..<k])"
  using assms
proof (induction k)
  case 0
  show ?case by simp
next
  case (Suc k)
  then have step: "client (map (page_request pid sd ed dims df mets obs) [0..<k])
                     (page_request pid sd ed dims df mets obs k) = Inr (pages k)"
    and ne: "pages k \<noteq> []"
    by simp_all
  have "run_paginated_request_loop client pid sd ed dims df mets obs [] 0 [] =
        run_paginated_request_loop client pid sd ed dims df mets obs
           (concat (map pages [0..<k])) (int k * MAX_ROWS_PER_REQUEST)
           (map (page_request pid sd ed dims df mets obs) [0..<k])"
    using Suc by simp
  also have "\<dots> = run_paginated_request_loop client pid sd ed dims df mets obs
           (concat (map pages [0..<Suc k])) (int (Suc k) * MAX_ROWS_PER_REQUEST)
           (map (page_request pid sd ed dims df mets obs) [0..<Suc k])"
    by (subst run_paginated_request_loop_unfold) (simp add: step ne)
  finally show ?case .
qed

lemma app_run_paginated_request_loop_pages:
  assumes "\<forall>i<k. client (map (app_page_request self sd ed dims mets df obs) [0..<i])
                     (app_page_request self sd ed dims mets df obs i) = Inr (pages i)
                  \<and> pages i \<noteq> []"
  shows "app_run_paginated_request_loop self client sd ed dims mets df obs [] 0 [] =
         app_run_paginated_request_loop self client sd ed dims mets df obs
           (concat (map pages [0..<k])) (int k * app_MAX_ROWS_PER_REQUEST)
           (map (app_page_request self sd ed dims mets df obs) [0..<k])"
  using assms
proof (induction k)
  case 0
  show ?case by simp
next
  case (Suc k)
  then have step: "client (map (app_page_request self sd ed dims mets df obs) [0..<k])
                     (app_page_request self sd ed dims mets df obs k) = Inr (pages k)"
    and ne: "pages k \<noteq> []"
    by simp_all
  have "app_run_paginated_request_loop self client sd ed dims mets df obs [] 0 [] =
        app_run_paginated_request_loop self client sd ed dims mets df obs
           (concat (map pages [0..<k])) (int k * app_MAX_ROWS_PER_REQUEST)
           (map (app_page_request self sd ed dims mets df obs) [0..<k])"
    using Suc by simp
  also have "\<dots> = app_run_paginated_request_loop self client sd ed dims mets df obs
           (concat (map pages [0..<Suc k])) (int (Suc k) * app_MAX_ROWS_PER_REQUEST)
           (map (app_page_request self sd ed dims mets df obs) [0..<Suc k])"
    by (subst app_run_paginated_request_loop_unfold) (simp add: step ne)
  finally show ?case .
qed

lemma answers_with_pagesD:
  "answers_with_pages client request pages \<Longrightarrow> list_all P pages \<Longrightarrow>
     \<forall>i<length pages. client (map request [0..<i]) (request i) = Inr (pages ! i) \<and> P (pages ! i)"
  by (simp add: answers_with_pages_def list_all_iff)

lemma length_concat_full_pages:
  "list_all (\<lambda>p. length p = n) pages \<Longrightarrow> length (concat pages) = length pages * n"
  by (induction pages) simp_all

subsection \<open>Pages followed by an empty page, or by a failure\<close>

lemma run_paginated_request_ends:
  assumes a: "answers_with_pages client (page_request pid sd ed dims df mets obs) pages"
    and ne: "list_all (\<lambda>p. p \<noteq> []) pages"
  shows "run_paginated_request client pid sd ed dims df mets obs =
     (case client (map (page_request pid sd ed dims df mets obs) [0..<length pages])
             (page_request pid sd ed dims df mets obs (length pages)) of
        Inl e \<Rightarrow>
          Some (Inl (RuntimeError
                  (''Failed to run request at offset ''
                     @ str_int (int (length pages) * MAX_ROWS_PER_REQUEST)
                     @ '': '' @ exn_str e) e),
                map (page_request pid sd ed dims df mets obs) [0..<Suc (length pages)])
      | Inr rows \<Rightarrow>
          if rows = []
          then Some (Inr (concat pages),
                     map (page_request pid sd ed dims df mets obs) [0..<Suc (length pages)])
          else run_paginated_request_loop client pid sd ed dims df mets obs (concat pages @ rows)
                 (int (Suc (length pages)) * MAX_ROWS_PER_REQUEST)
                 (map (page_request pid sd ed dims df mets obs) [0..<Suc (length pages)]))"
proof -
  let ?req = "page_request pid sd ed dims df mets obs"
  from a ne have "\<forall>i<length pages. client (map ?req [0..<i]) (?req i) = Inr (pages ! i)
      \<and> pages ! i \<noteq> []"
    by (rule answers_with_pagesD)
  then have "run_paginated_request_loop client pid sd ed dims df mets obs [] 0 [] =
      run_paginated_request_loop client pid sd ed dims df mets obs
        (concat (map (\<lambda>i. pages ! i) [0..<length pages]))
        (int (length pages) * MAX_ROWS_PER_REQUEST) (map ?req [0..<length pages])"
    by (rule run_paginated_request_loop_pages)
  then have "run_paginated_request client pid sd ed dims df mets obs =
      run_paginated_request_loop client pid sd ed dims df mets obs (concat pages)
        (int (length pages) * MAX_ROWS_PER_REQUEST) (map ?req [0..<length pages])"
    by (simp only: run_paginated_request_def map_nth)
  also have "\<dots> =
     (case client (map ?req [0..<length pages]) (?req (length pages)) of
        Inl e \<Rightarrow>
          Some (Inl (RuntimeError
                  (''Failed to run request at offset ''
                     @ str_int (int (length pages) * MAX_ROWS_PER_REQUEST)
                     @ '': '' @ exn_str e) e),
                map ?req [0..<Suc (length pages)])
      | Inr rows \<Rightarrow>
          if rows = []
          then Some (Inr (concat pages), map ?req [0..<Suc (length pages)])
          else run_paginated_request_loop client pid sd ed dims df mets obs (concat pages @ rows)
                 (int (Suc (length pages)) * MAX_ROWS_PER_REQUEST)
                 (map ?req [0..<Suc (length pages)]))"
    by (subst run_paginated_request_loop_unfold) (simp split: sum.splits)
  finally show ?thesis .
qed

lemma app_run_paginated_request_ends:
  assumes a: "answers_with_pages client (app_page_request self sd ed dims mets df obs) pages"
    and ne: "list_all (\<lambda>p. p \<noteq> []) pages"
  shows "app_run_paginated_request self client sd ed dims mets df obs =
     (case client (map (app_page_request self sd ed dims mets df obs) [0..<length pages])
             (app_page_request self sd ed dims mets df obs (length pages)) of
        Inl e \<Rightarrow>
          Some (Inl (RuntimeError
                  (''API request failed at offset ''
                     @ str_int (int (length pages) * app_MAX_ROWS_PER_REQUEST)
                     @ '': '' @ exn_str e) e),
                map (app_page_request self sd ed dims mets df obs) [0..<Suc (length pages)])
      | Inr rows \<Rightarrow>
          if rows = []
          then Some (Inr (concat pages),
                     map (app_page_request self sd ed dims mets df obs) [0..<Suc (length pages)])
          else app_run_paginated_request_loop self client sd ed dims mets df obs
                 (concat pages @ rows)
                 (int (Suc (length pages)) * app_MAX_ROWS_PER_REQUEST)
                 (map (app_page_request self sd ed dims mets df obs) [0..<Suc (length pages)]))"
proof -
  let ?req = "app_page_request self sd ed dims mets df obs"
  from a ne have "\<forall>i<length pages. client (map ?req [0..<i]) (?req i) = Inr (pages ! i)
      \<and> pages ! i \<noteq> []"
    by (rule answers_with_pagesD)
  then have "app_run_paginated_request_loop self client sd ed dims mets df obs [] 0 [] =
      app_run_paginated_request_loop self client sd ed dims mets df obs
        (concat (map (\<lambda>i. pages ! i) [0..<length pages]))
        (int (length pages) * app_MAX_ROWS_PER_REQUEST) (map ?req [0..<length pages])"
    by (rule app_run_paginated_request_loop_pages)
  then have "app_run_paginated_request self client sd ed dims mets df obs =
      app_run_paginated_request_loop self client sd ed dims mets df obs (concat pages)
        (int (length pages) * app_MAX_ROWS_PER_REQUEST) (map ?req [0..<length pages])"
    by (simp only: app_run_paginated_request_def map_nth)
  also have "\<dots> =
     (case client (map ?req [0..<length pages]) (?req (length pages)) of
        Inl e \<Rightarrow>
          Some (Inl (RuntimeError
                  (''API request failed at offset ''
                     @ str_int (int (length pages) * app_MAX_ROWS_PER_REQUEST)
                     @ '': '' @ exn_str e) e),
                map ?req [0..<Suc (length pages)])
      | Inr rows \<Rightarrow>
          if rows = []
          then Some (Inr (concat pages), map ?req [0..<Suc (length pages)])
          else app_run_paginated_request_loop self client sd ed dims mets df obs
                 (concat pages @ rows)
                 (int (Suc (length pages)) * app_MAX_ROWS_PER_REQUEST)
                 (map ?req [0..<Suc (length pages)]))"
    by (subst app_run_paginated_request_loop_unfold) (simp split: sum.splits)
  finally show ?thesis .
qed

lemma page_request_offsets:
  "map req_offset (map (page_request pid sd ed dims df mets obs) [0..<n]) =
     map (\<lambda>i. int i * MAX_ROWS_PER_REQUEST) [0..<n]"
  "map req_offset (map (app_page_request self sd ed dims mets df obs) [0..<n]) =
     map (\<lambda>i. int i * app_MAX_ROWS_PER_REQUEST) [0..<n]"
  by (simp_all add: page_request_def create_request_def app_page_request_def
        app_create_request_def Let_def)

lemma full_pages_nonempty:
  "list_all (\<lambda>p. length p = nat MAX_ROWS_PER_REQUEST) pages \<Longrightarrow> list_all (\<lambda>p. p \<noteq> []) pages"
  "list_all (\<lambda>p. length p = nat app_MAX_ROWS_PER_REQUEST) pages \<Longrightarrow> list_all (\<lambda>p. p \<noteq> []) pages"
  by (auto simp: list_all_iff MAX_ROWS_PER_REQUEST_def app_MAX_ROWS_PER_REQUEST_def)

lemma str_int_100000: "str_int 100000 = ''100000''"
  by (simp add: str_int_def str_nat.simps digit_char_def)

lemma str_int_250000: "str_int 250000 = ''250000''"
  by (simp add: str_int_def str_nat.simps digit_char_def)

text \<open>
  Claim C1. Let the client answer the requests at offsets 0, page size, twice the page
  size, ... with k full pages (of 100,000 rows for ga4\_api, of 250,000 rows for ga4\_app)
  and then with an empty page. Then the paginator returns, without an error, the rows of
  the k pages in the order fetched, k times the page size in number; it has made exactly
  k + 1 calls, at the offsets 0, page size, ..., k times the page size. For k = 0 this is
  one call and an empty result.
\<close>

theorem paginator_full_pages:
  "(answers_with_pages client (page_request pid sd ed dims df mets obs) pages
    \<and> list_all (\<lambda>p. length p = nat MAX_ROWS_PER_REQUEST) pages
    \<and> client (map (page_request pid sd ed dims df mets obs) [0..<length pages])
         (page_request pid sd ed dims df mets obs (length pages)) = Inr []
    \<longrightarrow> run_paginated_request client pid sd ed dims df mets obs =
          Some (Inr (concat pages),
                map (page_request pid sd ed dims df mets obs) [0..<Suc (length pages)])
        \<and> length (concat pages) = length pages * nat MAX_ROWS_PER_REQUEST
        \<and> length (map (page_request pid sd ed dims df mets obs) [0..<Suc (length pages)]) =
            length pages + 1
        \<and> map req_offset (map (page_request pid sd ed dims df mets obs) [0..<Suc (length pages)])
            = map (\<lambda>i. int i * MAX_ROWS_PER_REQUEST) [0..<Suc (length pages)])
   \<and> (answers_with_pages client' (app_page_request self sd' ed' dims' mets' df' obs') pages'
    \<and> list_all (\<lambda>p. length p = nat app_MAX_ROWS_PER_REQUEST) pages'
    \<and> client' (map (app_page_request self sd' ed' dims' mets' df' obs') [0..<length pages'])
         (app_page_request self sd' ed' dims' mets' df' obs' (length pages')) = Inr []
    \<longrightarrow> app_run_paginated_request self client' sd' ed' dims' mets' df' obs' =
          Some (Inr (concat pages'),
                map (app_page_request self sd' ed' dims' mets' df' obs') [0..<Suc (length pages')])
        \<and> length (concat pages') = length pages' * nat app_MAX_ROWS_PER_REQUEST
        \<and> length (map (app_page_request self sd' ed' dims' mets' df' obs')
                    [0..<Suc (length pages')]) = length pages' + 1
        \<and> map req_offset (map (app_page_request self sd' ed' dims' mets' df' obs')
                    [0..<Suc (length pages')])
            = map (\<lambda>i. int i * app_MAX_ROWS_PER_REQUEST) [0..<Suc (length pages')])"
proof (intro conjI impI)
  let ?req = "page_request pid sd ed dims df mets obs"
  assume h: "answers_with_pages client ?req pages
    \<and> list_all (\<lambda>p. length p = nat MAX_ROWS_PER_REQUEST) pages
    \<and> client (map ?req [0..<length pages]) (?req (length pages)) = Inr []"
  then have ne: "list_all (\<lambda>p. p \<noteq> []) pages"
    by (simp add: full_pages_nonempty)
  from h have "answers_with_pages client ?req pages" by simp
  from run_paginated_request_ends [OF this ne] h
  show "run_paginated_request client pid sd ed dims df mets obs =
      Some (Inr (concat pages), map ?req [0..<Suc (length pages)])"
    by simp
  from h show "length (concat pages) = length pages * nat MAX_ROWS_PER_REQUEST"
    by (simp add: length_concat_full_pages)
  show "length (map ?req [0..<Suc (length pages)]) = length pages + 1"
    by simp
  show "map req_offset (map ?req [0..<Suc (length pages)]) =
      map (\<lambda>i. int i * MAX_ROWS_PER_REQUEST) [0..<Suc (length pages)]"
    by (rule page_request_offsets)
next
  let ?req = "app_page_request self sd' ed' dims' mets' df' obs'"
  assume h: "answers_with_pages client' ?req pages'
    \<and> list_all (\<lambda>p. length p = nat app_MAX_ROWS_PER_REQUEST) pages'
    \<and> client' (map ?req [0..<length pages']) (?req (length pages')) = Inr []"
  then have ne: "list_all (\<lambda>p. p \<noteq> []) pages'"
    by (simp add: full_pages_nonempty)
  from h have "answers_with_pages client' ?req pages'" by simp
  from app_run_paginated_request_ends [OF this ne] h
  show "app_run_paginated_request self client' sd' ed' dims' mets' df' obs' =
      Some (Inr (concat pages'), map ?req [0..<Suc (length pages')])"
    by simp
  from h show "length (concat pages') = length pages' * nat app_MAX_ROWS_PER_REQUEST"
    by (simp add: length_concat_full_pages)
  show "length (map ?req [0..<Suc (length pages')]) = length pages' + 1"
    by simp
  show "map req_offset (map ?req [0..<Suc (length pages')]) =
      map (\<lambda>i. int i * app_MAX_ROWS_PER_REQUEST) [0..<Suc (length pages')]"
    by (rule page_request_offsets)
qed

theorem paginator_full_pages_witness:
  "run_paginated_request (two_page_client 100000) ''123'' ''30daysAgo'' ''today''
       (Some [''date'']) None (Some [''sessions'']) None =
     Some (Inr (replicate 100000 example_row @ replicate 100000 example_row),
           map (page_request ''123'' ''30daysAgo'' ''today'' (Some [''date'']) None
                  (Some [''sessions'']) None) [0, 1, 2])
   \<and> app_run_paginated_request \<lparr>self_credentials_path = None, self_property_id = Some ''123''\<rparr>
       (two_page_client 250000) ''30daysAgo'' ''today'' (Some [''date'']) (Some [''sessions''])
       None None =
     Some (Inr (replicate 250000 example_row @ replicate 250000 example_row),
           map (app_page_request \<lparr>self_credentials_path = None, self_property_id = Some ''123''\<rparr>
                  ''30daysAgo'' ''today'' (Some [''date'']) (Some [''sessions'']) None None)
               [0, 1, 2])"
  using paginator_full_pages
    [where client = "two_page_client 100000" and pid = "''123''" and sd = "''30daysAgo''"
       and ed = "''today''" and dims = "Some [''date'']" and df = None
       and mets = "Some [''sessions'']" and obs = None
       and pages = "[replicate 100000 example_row, replicate 100000 example_row]"
       and client' = "two_page_client 250000"
       and self = "\<lparr>self_credentials_path = None, self_property_id = Some ''123''\<rparr>"
       and sd' = "''30daysAgo''" and ed' = "''today''" and dims' = "Some [''date'']"
       and mets' = "Some [''sessions'']" and df' = None and obs' = None
       and pages' = "[replicate 250000 example_row, replicate 250000 example_row]"]
  by (simp add: answers_with_pages_def two_page_client_def page_request_def create_request_def
        app_page_request_def app_create_request_def Let_def MAX_ROWS_PER_REQUEST_def
        app_MAX_ROWS_PER_REQUEST_def or_empty_def)

text \<open>
  Claim C2. Let call number j of the client fail, the j - 1 calls before it having
  returned non-empty pages (so that call j is made). Then the paginator has made exactly j
  calls and returns no rows: it raises a \<open>RuntimeError\<close> whose text names the offset of the
  failed request, (j - 1) times the page size, followed by the text of the client's
  exception, which it carries as its context. Here j - 1 is the number of pages.
\<close>

theorem paginator_fetch_failure:
  "(answers_with_pages client (page_request pid sd ed dims df mets obs) pages
    \<and> list_all (\<lambda>p. p \<noteq> []) pages
    \<and> client (map (page_request pid sd ed dims df mets obs) [0..<length pages])
         (page_request pid sd ed dims df mets obs (length pages)) = Inl e
    \<longrightarrow> run_paginated_request client pid sd ed dims df mets obs =
          Some (Inl (RuntimeError
                  (''Failed to run request at offset ''
                     @ str_int (int (length pages) * MAX_ROWS_PER_REQUEST)
                     @ '': '' @ exn_str e) e),
                map (page_request pid sd ed dims df mets obs) [0..<Suc (length pages)])
        \<and> length (map (page_request pid sd ed dims df mets obs) [0..<Suc (length pages)]) =
            length pages + 1
        \<and> req_offset (page_request pid sd ed dims df mets obs (length pages)) =
            int (length pages) * MAX_ROWS_PER_REQUEST)
   \<and> (answers_with_pages client' (app_page_request self sd' ed' dims' mets' df' obs') pages'
    \<and> list_all (\<lambda>p. p \<noteq> []) pages'
    \<and> client' (map (app_page_request self sd' ed' dims' mets' df' obs') [0..<length pages'])
         (app_page_request self sd' ed' dims' mets' df' obs' (length pages')) = Inl e'
    \<longrightarrow> app_run_paginated_request self client' sd' ed' dims' mets' df' obs' =
          Some (Inl (RuntimeError
                  (''API request failed at offset ''
                     @ str_int (int (length pages') * app_MAX_ROWS_PER_REQUEST)
                     @ '': '' @ exn_str e') e'),
                map (app_page_request self sd' ed' dims' mets' df' obs') [0..<Suc (length pages')])
        \<and> length (map (app_page_request self sd' ed' dims' mets' df' obs')
                    [0..<Suc (length pages')]) = length pages' + 1
        \<and> req_offset (app_page_request self sd' ed' dims' mets' df' obs' (length pages')) =
            int (length pages') * app_MAX_ROWS_PER_REQUEST)"
proof (intro conjI impI)
  let ?req = "page_request pid sd ed dims df mets obs"
  assume h: "answers_with_pages client ?req pages \<and> list_all (\<lambda>p. p \<noteq> []) pages
    \<and> client (map ?req [0..<length pages]) (?req (length pages)) = Inl e"
  then have a: "answers_with_pages client ?req pages" and ne: "list_all (\<lambda>p. p \<noteq> []) pages"
    by simp_all
  from run_paginated_request_ends [OF a ne] h
  show "run_paginated_request client pid sd ed dims df mets obs =
      Some (Inl (RuntimeError
              (''Failed to run request at offset ''
                 @ str_int (int (length pages) * MAX_ROWS_PER_REQUEST) @ '': '' @ exn_str e) e),
            map ?req [0..<Suc (length pages)])"
    by simp
  show "length (map ?req [0..<Suc (length pages)]) = length pages + 1"
    by simp
  show "req_offset (?req (length pages)) = int (length pages) * MAX_ROWS_PER_REQUEST"
    by (simp add: page_request_def create_request_def Let_def)
next
  let ?req = "app_page_request self sd' ed' dims' mets' df' obs'"
  assume h: "answers_with_pages client' ?req pages' \<and> list_all (\<lambda>p. p \<noteq> []) pages'
    \<and> client' (map ?req [0..<length pages']) (?req (length pages')) = Inl e'"
  then have a: "answers_with_pages client' ?req pages'" and ne: "list_all (\<lambda>p. p \<noteq> []) pages'"
    by simp_all
  from app_run_paginated_request_ends [OF a ne] h
  show "app_run_paginated_request self client' sd' ed' dims' mets' df' obs' =
      Some (Inl (RuntimeError
              (''API request failed at offset ''
                 @ str_int (int (length pages') * app_MAX_ROWS_PER_REQUEST)
                 @ '': '' @ exn_str e') e'),
            map ?req [0..<Suc (length pages')])"
    by simp
  show "length (map ?req [0..<Suc (length pages')]) = length pages' + 1"
    by simp
  show "req_offset (?req (length pages')) = int (length pages') * app_MAX_ROWS_PER_REQUEST"
    by (simp add: app_page_request_def app_create_request_def Let_def)
qed

theorem paginator_fetch_failure_witness:
  "run_paginated_request failing_client ''123'' ''30daysAgo'' ''today''
       (Some [''date'']) None (Some [''sessions'']) None =
     Some (Inl (Exception ''RuntimeError''
                  ''Failed to run request at offset 100000: 503 backend error''
                  (Some (Exception ''ServiceUnavailable'' ''503 backend error'' None))),
           map (page_request ''123'' ''30daysAgo'' ''today'' (Some [''date'']) None
                  (Some [''sessions'']) None) [0, 1])
   \<and> app_run_paginated_request \<lparr>self_credentials_path = None, self_property_id = Some ''123''\<rparr>
       failing_client ''30daysAgo'' ''today'' (Some [''date'']) (Some [''sessions'']) None None =
     Some (Inl (Exception ''RuntimeError''
                  ''API request failed at offset 250000: 503 backend error''
                  (Some (Exception ''ServiceUnavailable'' ''503 backend error'' None))),
           map (app_page_request \<lparr>self_credentials_path = None, self_property_id = Some ''123''\<rparr>
                  ''30daysAgo'' ''today'' (Some [''date'']) (Some [''sessions'']) None None)
               [0, 1])"
  using paginator_fetch_failure
    [where client = failing_client and pid = "''123''" and sd = "''30daysAgo''"
       and ed = "''today''" and dims = "Some [''date'']" and df = None
       and mets = "Some [''sessions'']" and obs = None
       and pages = "[[example_row]]"
       and e = "Exception ''ServiceUnavailable'' ''503 backend error'' None"
       and client' = failing_client
       and self = "\<lparr>self_credentials_path = None, self_property_id = Some ''123''\<rparr>"
       and sd' = "''30daysAgo''" and ed' = "''today''" and dims' = "Some [''date'']"
       and mets' = "Some [''sessions'']" and df' = None and obs' = None
       and pages' = "[[example_row]]"
       and e' = "Exception ''ServiceUnavailable'' ''503 backend error'' None"]
  by (simp add: answers_with_pages_def failing_client_def MAX_ROWS_PER_REQUEST_def
        app_MAX_ROWS_PER_REQUEST_def RuntimeError_def str_int_100000 str_int_250000)

section \<open>The tabulators\<close>

subsection \<open>Dictionaries\<close>

lemma assign_all_simps [simp]:
  "assign_all [] d = d"
  "assign_all ((k, v) # kvs) d = assign_all kvs (dict_setitem d k v)"
  by (simp_all add: assign_all_def)

lemma assign_all_append: "assign_all (xs @ ys) d = assign_all ys (assign_all xs d)"
  by (simp add: assign_all_def)

lemma dict_setitem_new: "k \<notin> fst ` set d \<Longrightarrow> dict_setitem d k v = d @ [(k, v)]"
  by (induction d) auto

lemma keys_dict_setitem:
  "map fst (dict_setitem d k v) = (if k \<in> fst ` set d then map fst d else map fst d @ [k])"
  by (induction d) (force split: if_splits)+

lemma set_keys_dict_setitem: "fst ` set (dict_setitem d k v) = insert k (fst ` set d)"
  using arg_cong [OF keys_dict_setitem [of d k v], of set] by (auto split: if_splits)

lemma map_of_dict_setitem: "map_of (dict_setitem d k v) = (map_of d)(k \<mapsto> v)"
  by (induction d) auto

lemma distinct_dict_setitem:
  "distinct (map fst d) \<Longrightarrow> distinct (map fst (dict_setitem d k v))"
  by (simp add: keys_dict_setitem)

lemma distinct_assign_all:
  "distinct (map fst d) \<Longrightarrow> distinct (map fst (assign_all kvs d))"
  by (induction kvs arbitrary: d) (auto simp: distinct_dict_setitem)

lemma keys_assign_all:
  "fst ` set (assign_all kvs d) = fst ` set d \<union> fst ` set kvs"
proof (induction kvs arbitrary: d)
  case Nil
  show ?case by simp
next
  case (Cons kv kvs)
  obtain k v where kv: "kv = (k, v)" by (cases kv)
  have "fst ` set (dict_setitem d k v) = insert k (fst ` set d)"
    by (rule set_keys_dict_setitem)
  then show ?case
    using Cons.IH [of "dict_setitem d k v"] by (auto simp: kv)
qed

lemma assign_all_disjoint:
  "distinct (map fst kvs) \<Longrightarrow> fst ` set kvs \<inter> fst ` set d = {} \<Longrightarrow> assign_all kvs d = d @ kvs"
proof (induction kvs arbitrary: d)
  case Nil
  show ?case by simp
next
  case (Cons kv kvs)
  obtain k v where kv: "kv = (k, v)" by (cases kv)
  from Cons.prems have new: "k \<notin> fst ` set d" and dist: "distinct (map fst kvs)"
    and notin: "k \<notin> fst ` set kvs" and disj: "fst ` set kvs \<inter> fst ` set d = {}"
    by (auto simp: kv)
  have "fst ` set kvs \<inter> fst ` set (d @ [(k, v)]) = {}"
    using notin disj by auto
  with dist have "assign_all kvs (d @ [(k, v)]) = (d @ [(k, v)]) @ kvs"
    by (rule Cons.IH)
  then show ?case
    by (simp add: kv dict_setitem_new [OF new])
qed

lemma map_of_assign_all_other:
  "k \<notin> fst ` set kvs \<Longrightarrow> map_of (assign_all kvs d) k = map_of d k"
  by (induction kvs arbitrary: d) (auto simp: map_of_dict_setitem)

lemma map_of_assign_all_last:
  "k \<notin> fst ` set post \<Longrightarrow> map_of (assign_all (pre @ (k, v) # post) d) k = Some v"
  by (simp add: assign_all_append map_of_assign_all_other map_of_dict_setitem)

lemma map_of_assign_all_distinct:
  assumes "distinct (map fst e)" and "k \<in> fst ` set e"
  shows "map_of (assign_all e d) k = map_of e k"
proof -
  from assms(2) obtain v where "(k, v) \<in> set e" by auto
  then obtain pre post where e: "e = pre @ (k, v) # post"
    by (auto dest: split_list)
  with assms(1) have "k \<notin> fst ` set post" by auto
  then have "map_of (assign_all e d) k = Some v"
    unfolding e by (rule map_of_assign_all_last)
  moreover have "map_of e k = Some v"
    using assms(1) \<open>(k, v) \<in> set e\<close> by (rule map_of_is_SomeI)
  ultimately show ?thesis by simp
qed

lemma zip_split_at:
  assumes "j < length ks" and "length ks \<le> length vs"
  shows "zip ks vs = zip (take j ks) (take j vs) @ (ks ! j, vs ! j) # zip (drop (Suc j) ks) (drop (Suc j) vs)"
proof -
  have "ks = take j ks @ ks ! j # drop (Suc j) ks" and "vs = take j vs @ vs ! j # drop (Suc j) vs"
    using assms by (simp_all add: id_take_nth_drop)
  then have "zip ks vs = zip (take j ks @ ks ! j # drop (Suc j) ks) (take j vs @ vs ! j # drop (Suc j) vs)"
    by simp
  also have "\<dots> = zip (take j ks) (take j vs) @ zip (ks ! j # drop (Suc j) ks) (vs ! j # drop (Suc j) vs)"
    using assms by (intro zip_append) simp
  finally show ?thesis by simp
qed

lemma map_of_assign_all_zip_last:
  assumes "j < length ks" and "length ks \<le> length vs" and "ks ! j \<notin> set (drop (Suc j) ks)"
  shows "map_of (assign_all (zip ks vs) d) (ks ! j) = Some (vs ! j)"
proof -
  have "ks ! j \<notin> fst ` set (zip (drop (Suc j) ks) (drop (Suc j) vs))"
    using assms(3) by (auto dest: set_zip_leftD)
  then show ?thesis
    by (subst zip_split_at [OF assms(1,2)]) (rule map_of_assign_all_last)
qed

lemma keys_zip: "length ks \<le> length vs \<Longrightarrow> fst ` set (zip ks vs) = set ks"
proof -
  assume "length ks \<le> length vs"
  then have "map fst (zip ks vs) = ks"
    by (simp add: map_fst_zip_take min_def)
  then have "set (map fst (zip ks vs)) = set ks"
    by simp
  then show ?thesis
    by (simp only: set_map)
qed

lemma dict_comprehension_from:
  "dict_comprehension keys vals [a..<length keys] d =
     (if length keys \<le> a \<or> length keys \<le> length vals
      then Inr (assign_all (zip (drop a keys) (drop a vals)) d)
      else Inl IndexError)"
proof (induction "length keys - a" arbitrary: a d)
  case 0
  then show ?case by simp
next
  case (Suc n)
  then have a: "a < length keys" and n: "n = length keys - Suc a"
    by simp_all
  have upt: "[a..<length keys] = a # [Suc a..<length keys]"
    using a by (rule upt_conv_Cons)
  show ?case
  proof (cases "a < length vals")
    case True
    have "drop a keys = keys ! a # drop (Suc a) keys" "drop a vals = vals ! a # drop (Suc a) vals"
      using a True by (simp_all add: Cons_nth_drop_Suc)
    then show ?thesis
      using a True Suc.hyps(1) [OF n, of "dict_setitem d (keys ! a) (vals ! a)"]
      by (simp add: upt py_getitem_def)
  next
    case False
    then show ?thesis
      using a by (simp add: upt py_getitem_def)
  qed
qed

lemma dict_comprehension_range:
  "dict_comprehension keys vals [0..<length keys] d =
     (if length keys \<le> length vals then Inr (assign_all (zip keys vals) d) else Inl IndexError)"
  using dict_comprehension_from [of keys vals 0 d] by auto

lemma assign_values_from:
  "assign_values (enumerate a names) vals d =
     (if names = [] \<or> a + length names \<le> length vals
      then Inr (assign_all (zip names (drop a vals)) d)
      else Inl IndexError)"
proof (induction names arbitrary: a d)
  case Nil
  show ?case by simp
next
  case (Cons name names)
  show ?case
  proof (cases "a < length vals")
    case True
    have "drop a vals = vals ! a # drop (Suc a) vals"
      using True by (simp add: Cons_nth_drop_Suc)
    then show ?thesis
      using True Cons.IH [of "Suc a" "dict_setitem d name (vals ! a)"]
      by (auto simp: py_getitem_def)
  next
    case False
    then show ?thesis by (simp add: py_getitem_def)
  qed
qed

lemma assign_values_enumerate:
  "assign_values (enumerate 0 names) vals d =
     (if length names \<le> length vals then Inr (assign_all (zip names vals) d) else Inl IndexError)"
  using assign_values_from [of 0 names vals d] by auto

lemma response_row_dict_eq:
  "response_row_dict dims mets row =
     (if row_fits dims mets row then Inr (api_record dims mets row) else Inl IndexError)"
  by (simp add: response_row_dict_def dict_comprehension_range row_fits_def api_record_def)

lemma app_row_dict_eq:
  "app_row_dict dims mets row =
     (if row_fits dims mets row then Inr (app_record dims mets row) else Inl IndexError)"
  by (simp add: app_row_dict_def assign_values_enumerate row_fits_def app_record_def)

lemma list_comprehension_eq:
  assumes "\<And>x. f x = (if ok x then Inr (g x) else Inl e)"
  shows "list_comprehension f xs = (if list_all ok xs then Inr (map g xs) else Inl e)"
  by (induction xs) (simp_all add: assms)

lemma app_convert_loop_eq:
  "app_convert_loop dims mets rows data =
     (if list_all (row_fits dims mets) rows then Inr (data @ map (app_record dims mets) rows)
      else Inl IndexError)"
  by (induction rows arbitrary: data) (simp_all add: app_row_dict_eq)

lemma convert_response_to_dataframe_eq:
  "convert_response_to_dataframe rows dims mets =
     (if list_all (row_fits dims mets) rows
      then Inr (pd_DataFrame (map (api_record dims mets) rows))
      else Inl (RuntimeError (''Failed to convert response to DataFrame: '' @ exn_str IndexError)
                  IndexError))"
  by (simp add: convert_response_to_dataframe_def
        list_comprehension_eq [where ok = "row_fits dims mets" and g = "api_record dims mets"
          and e = IndexError, OF response_row_dict_eq])

lemma app_convert_to_dataframe_eq:
  "app_convert_to_dataframe rows dims mets =
     (if list_all (row_fits dims mets) rows
      then Inr (pd_DataFrame (map (app_record dims mets) rows))
      else Inl (RuntimeError (''DataFrame conversion failed: '' @ exn_str IndexError) IndexError))"
  by (simp add: app_convert_to_dataframe_def app_convert_loop_eq)

lemma records_distinct_names:
  assumes dist: "distinct (dims @ mets)"
    and d: "length (dimension_values row) = length dims"
    and m: "length (metric_values row) = length mets"
  shows "api_record dims mets row = zip (dims @ mets) (dimension_values row @ metric_values row)"
    and "app_record dims mets row = zip (dims @ mets) (dimension_values row @ metric_values row)"
proof -
  let ?zd = "zip dims (dimension_values row)" and ?zm = "zip mets (metric_values row)"
  have kd: "map fst ?zd = dims" and km: "map fst ?zm = mets"
    using d m by simp_all
  have sd: "fst ` set ?zd = set dims" and sm: "fst ` set ?zm = set mets"
    using d m by (simp_all add: keys_zip)
  have zd: "assign_all ?zd [] = ?zd"
    using dist by (subst assign_all_disjoint) (simp_all add: kd)
  have zm: "assign_all ?zm [] = ?zm"
    using dist by (subst assign_all_disjoint) (simp_all add: km)
  have both: "assign_all ?zm ?zd = ?zd @ ?zm"
    using dist by (subst assign_all_disjoint) (auto simp: km sd sm)
  have app: "?zd @ ?zm = zip (dims @ mets) (dimension_values row @ metric_values row)"
    using d by simp
  show "api_record dims mets row = zip (dims @ mets) (dimension_values row @ metric_values row)"
    by (simp add: api_record_def dict_or_def assign_all_def [symmetric] zd zm both app)
  show "app_record dims mets row = zip (dims @ mets) (dimension_values row @ metric_values row)"
    by (simp add: app_record_def zd both app)
qed

lemma dict_or_assign_all: "dict_or d1 d2 = assign_all d2 d1"
  by (simp add: dict_or_def assign_all_def)

lemma record_keys:
  assumes "row_fits dims mets row"
  shows "distinct (map fst (api_record dims mets row))"
    and "fst ` set (api_record dims mets row) = set dims \<union> set mets"
    and "distinct (map fst (app_record dims mets row))"
    and "fst ` set (app_record dims mets row) = set dims \<union> set mets"
  using assms
  by (simp_all add: api_record_def app_record_def dict_or_assign_all distinct_assign_all
        keys_assign_all keys_zip row_fits_def)

lemma record_metric_value:
  assumes fits: "row_fits dims mets row" and j: "j < length mets"
    and last: "mets ! j \<notin> set (drop (Suc j) mets)"
  shows "map_of (api_record dims mets row) (mets ! j) = Some (metric_values row ! j)"
    and "map_of (app_record dims mets row) (mets ! j) = Some (metric_values row ! j)"
proof -
  let ?zm = "zip mets (metric_values row)"
  from fits have len: "length mets \<le> length (metric_values row)"
    by (simp add: row_fits_def)
  have val: "map_of (assign_all ?zm d) (mets ! j) = Some (metric_values row ! j)" for d
    using j len last by (rule map_of_assign_all_zip_last)
  have "mets ! j \<in> fst ` set (assign_all ?zm [])"
    using j len by (simp add: keys_assign_all keys_zip)
  moreover have "distinct (map fst (assign_all ?zm []))"
    by (simp add: distinct_assign_all)
  ultimately have "map_of (assign_all (assign_all ?zm []) d) (mets ! j) =
      map_of (assign_all ?zm []) (mets ! j)" for d
    by (simp add: map_of_assign_all_distinct)
  then show "map_of (api_record dims mets row) (mets ! j) = Some (metric_values row ! j)"
    by (simp add: api_record_def dict_or_assign_all val)
  show "map_of (app_record dims mets row) (mets ! j) = Some (metric_values row ! j)"
    by (simp add: app_record_def val)
qed

lemma count_list_distinct: "distinct xs \<Longrightarrow> x \<in> set xs \<Longrightarrow> count_list xs x = 1"
  by (induction xs) auto

lemma length_keys_shared:
  assumes "distinct (map fst r)" and "fst ` set r = set dims \<union> set mets"
  shows "length r = card (set (dims @ mets))"
    and "(length r = length dims + length mets) = distinct (dims @ mets)"
    and "n \<in> set dims \<Longrightarrow> n \<in> set mets \<Longrightarrow> length r < length dims + length mets"
proof -
  have "length r = length (map fst r)" by simp
  also have "\<dots> = card (set (map fst r))"
    using assms(1) by (simp only: distinct_card)
  also have "\<dots> = card (set (dims @ mets))"
    using assms(2) by simp
  finally show len: "length r = card (set (dims @ mets))" .
  show iff: "(length r = length dims + length mets) = distinct (dims @ mets)"
    using card_distinct [of "dims @ mets"] distinct_card [of "dims @ mets"]
    by (auto simp: len simp del: set_append distinct_append)
  assume "n \<in> set dims" "n \<in> set mets"
  then have "\<not> distinct (dims @ mets)" by auto
  with iff have "length r \<noteq> length dims + length mets" by simp
  moreover have "length r \<le> length dims + length mets"
    using card_length [of "dims @ mets"] by (simp add: len del: set_append)
  ultimately show "length r < length dims + length mets" by simp
qed

lemma records_pd_DataFrame [simp]:
  "df_records (pd_DataFrame data) = map (map (\<lambda>(k, v). (k, Str v))) data"
  by (simp add: pd_DataFrame_def)

lemma keys_map_Str [simp]: "map fst (map (\<lambda>(k, v). (k, Str v)) r) = map fst r"
  by (induction r) auto

lemma map_of_map_Str: "map_of (map (\<lambda>(k, v). (k, Str v)) r) k = map_option Str (map_of r k)"
  by (induction r) auto

lemma tabulated_eq:
  "map (\<lambda>(k, v). (k, Str v)) (zip ks vs) = zip ks (map Str vs)"
  by (induction ks vs rule: list_induct2') simp_all

subsection \<open>The claims on the tabulators\<close>

text \<open>
  Claim C7, as stated, promises D + M keys for any D dimension names and M metric names.
  With the name \<open>country\<close> both a dimension and a metric, a row with one value of each is
  tabulated into a record of one key, not two.
\<close>

theorem tabulator_keys_counterexample:
  "convert_response_to_dataframe
       [\<lparr>dimension_values = [''PL''], metric_values = [''7'']\<rparr>] [''country''] [''country''] =
     Inr (DataFrame [[(''country'', Str ''7'')]])
   \<and> app_convert_to_dataframe
       [\<lparr>dimension_values = [''PL''], metric_values = [''7'']\<rparr>] [''country''] [''country''] =
     Inr (DataFrame [[(''country'', Str ''7'')]])
   \<and> length [(''country'', Str ''7'')] \<noteq> length [''country''] + length [''country'']"
  by (simp add: convert_response_to_dataframe_eq app_convert_to_dataframe_eq row_fits_def
        api_record_def app_record_def dict_or_assign_all pd_DataFrame_def)

text \<open>
  Claim C7, amended. Let the D dimension names and the M metric names be pairwise distinct,
  and let each of the N rows carry exactly D dimension values and exactly M metric values.
  Then both tabulators produce exactly N records, in the order of the rows; each record has
  exactly D + M keys, the dimension names followed by the metric names, and the value of
  each key is the text of the row's value at the same position.
\<close>

theorem tabulator_distinct_names:
  assumes "distinct (dims @ mets)"
    and "\<forall>row \<in> set rows. length (dimension_values row) = length dims
                          \<and> length (metric_values row) = length mets"
  shows "convert_response_to_dataframe rows dims mets =
           Inr (DataFrame (map (tabulated dims mets) rows))
       \<and> app_convert_to_dataframe rows dims mets =
           Inr (DataFrame (map (tabulated dims mets) rows))
       \<and> length (map (tabulated dims mets) rows) = length rows
       \<and> (\<forall>row \<in> set rows.
            map fst (tabulated dims mets row) = dims @ mets
          \<and> map snd (tabulated dims mets row) =
              map Str (dimension_values row @ metric_values row)
          \<and> length (tabulated dims mets row) = length dims + length mets)"
proof -
  have fits: "list_all (row_fits dims mets) rows"
    using assms(2) by (simp add: list_all_iff row_fits_def)
  have rec: "map (\<lambda>(k, v). (k, Str v)) (api_record dims mets row) = tabulated dims mets row"
            "map (\<lambda>(k, v). (k, Str v)) (app_record dims mets row) = tabulated dims mets row"
    if "row \<in> set rows" for row
    using that assms records_distinct_names [of dims mets row]
    by (simp_all add: tabulated_def tabulated_eq)
  have api: "convert_response_to_dataframe rows dims mets =
      Inr (DataFrame (map (tabulated dims mets) rows))"
    using fits rec(1) by (simp add: convert_response_to_dataframe_eq pd_DataFrame_def)
  have app: "app_convert_to_dataframe rows dims mets =
      Inr (DataFrame (map (tabulated dims mets) rows))"
    using fits rec(2) by (simp add: app_convert_to_dataframe_eq pd_DataFrame_def)
  have shape: "map fst (tabulated dims mets row) = dims @ mets
      \<and> map snd (tabulated dims mets row) = map Str (dimension_values row @ metric_values row)
      \<and> length (tabulated dims mets row) = length dims + length mets"
    if "row \<in> set rows" for row
    using that assms(2) by (simp add: tabulated_def)
  from api app shape show ?thesis by simp
qed

theorem tabulator_distinct_names_witness:
  "convert_response_to_dataframe
       [\<lparr>dimension_values = [''20250601'', ''PL''], metric_values = [''7'']\<rparr>,
        \<lparr>dimension_values = [''20250602'', ''DE''], metric_values = [''9'']\<rparr>]
       [''date'', ''country''] [''sessions''] =
     Inr (DataFrame
       [[(''date'', Str ''20250601''), (''country'', Str ''PL''), (''sessions'', Str ''7'')],
        [(''date'', Str ''20250602''), (''country'', Str ''DE''), (''sessions'', Str ''9'')]])
   \<and> app_convert_to_dataframe
       [\<lparr>dimension_values = [''20250601'', ''PL''], metric_values = [''7'']\<rparr>,
        \<lparr>dimension_values = [''20250602'', ''DE''], metric_values = [''9'']\<rparr>]
       [''date'', ''country''] [''sessions''] =
     Inr (DataFrame
       [[(''date'', Str ''20250601''), (''country'', Str ''PL''), (''sessions'', Str ''7'')],
        [(''date'', Str ''20250602''), (''country'', Str ''DE''), (''sessions'', Str ''9'')]])"
  using tabulator_distinct_names
    [of "[''date'', ''country'']" "[''sessions'']"
        "[\<lparr>dimension_values = [''20250601'', ''PL''], metric_values = [''7'']\<rparr>,
          \<lparr>dimension_values = [''20250602'', ''DE''], metric_values = [''9'']\<rparr>]"]
  by (simp add: tabulated_def)




text \<open>
  Claim C10. Let a name occur among the dimension names and among the metric names, and
  let the tabulators succeed. Then each record has that name as a key exactly once, its
  value is the row's metric value at the last position of the name among the metrics (the
  assignment of the metric overwrites the dimension's), and the record has fewer than
  D + M keys. A record has D + M keys exactly when the D + M names are pairwise distinct.
\<close>

theorem tabulator_shared_name:
  assumes api: "convert_response_to_dataframe rows dims mets = Inr df"
    and app: "app_convert_to_dataframe rows dims mets = Inr df'"
    and n: "n \<in> set dims" "n \<in> set mets"
    and i: "i < length rows"
    and j: "j < length mets" "mets ! j = n" "n \<notin> set (drop (Suc j) mets)"
  shows "length (df_records df) = length rows \<and> length (df_records df') = length rows
       \<and> count_list (map fst (df_records df ! i)) n = 1
       \<and> count_list (map fst (df_records df' ! i)) n = 1
       \<and> map_of (df_records df ! i) n = Some (Str (metric_values (rows ! i) ! j))
       \<and> map_of (df_records df' ! i) n = Some (Str (metric_values (rows ! i) ! j))
       \<and> length (df_records df ! i) < length dims + length mets
       \<and> length (df_records df' ! i) < length dims + length mets
       \<and> (\<forall>r \<in> set (df_records df) \<union> set (df_records df').
            (length r = length dims + length mets) = distinct (dims @ mets))"
proof -
  have fits: "list_all (row_fits dims mets) rows"
    using api by (simp add: convert_response_to_dataframe_eq split: if_splits)
  then have fit: "row_fits dims mets row" if "row \<in> set rows" for row
    using that by (simp add: list_all_iff)
  have df: "df_records df = map (\<lambda>row. map (\<lambda>(k, v). (k, Str v)) (api_record dims mets row)) rows"
    using api fits by (auto simp: convert_response_to_dataframe_eq)
  have df': "df_records df' = map (\<lambda>row. map (\<lambda>(k, v). (k, Str v)) (app_record dims mets row)) rows"
    using app fits by (auto simp: app_convert_to_dataframe_eq)
  let ?a = "api_record dims mets (rows ! i)" and ?b = "app_record dims mets (rows ! i)"
  have fi: "row_fits dims mets (rows ! i)"
    using i by (simp add: fit)
  note keys = record_keys [OF fi]
  have ri: "df_records df ! i = map (\<lambda>(k, v). (k, Str v)) ?a"
       "df_records df' ! i = map (\<lambda>(k, v). (k, Str v)) ?b"
    using i by (simp_all add: df df')
  have once: "count_list (map fst (df_records df ! i)) n = 1"
       "count_list (map fst (df_records df' ! i)) n = 1"
  proof -
    have "n \<in> set (map fst ?a)" "n \<in> set (map fst ?b)"
      using keys(2,4) n by simp_all
    with keys(1,3) have "count_list (map fst ?a) n = 1" "count_list (map fst ?b) n = 1"
      by (simp_all only: count_list_distinct)
    then show "count_list (map fst (df_records df ! i)) n = 1"
       "count_list (map fst (df_records df' ! i)) n = 1"
      by (simp_all only: ri keys_map_Str)
  qed
  have val: "map_of (df_records df ! i) n = Some (Str (metric_values (rows ! i) ! j))"
       "map_of (df_records df' ! i) n = Some (Str (metric_values (rows ! i) ! j))"
    using record_metric_value [OF fi j(1)] j(2,3) by (simp_all add: ri map_of_map_Str)
  have fewer: "length (df_records df ! i) < length dims + length mets"
       "length (df_records df' ! i) < length dims + length mets"
    using length_keys_shared(3) [OF keys(1,2) n] length_keys_shared(3) [OF keys(3,4) n]
    by (simp_all add: ri)
  have only: "(length r = length dims + length mets) = distinct (dims @ mets)"
    if "r \<in> set (df_records df) \<union> set (df_records df')" for r
  proof -
    from that obtain row where row: "row \<in> set rows"
      and r: "r = map (\<lambda>(k, v). (k, Str v)) (api_record dims mets row)
            \<or> r = map (\<lambda>(k, v). (k, Str v)) (app_record dims mets row)"
      by (auto simp: df df')
    note k = record_keys [OF fit [OF row]]
    from r show ?thesis
      using length_keys_shared(2) [OF k(1,2)] length_keys_shared(2) [OF k(3,4)] by auto
  qed
  from once val fewer only show ?thesis
    by (simp add: df df')
qed

theorem tabulator_shared_name_witness:
  "count_list (map fst (df_records
       (DataFrame [[(''date'', Str ''20250601''), (''value'', Str ''7'')]]) ! 0)) ''value'' = 1
   \<and> map_of (df_records
       (DataFrame [[(''date'', Str ''20250601''), (''value'', Str ''7'')]]) ! 0) ''value'' =
       Some (Str ''7'')
   \<and> length (df_records
       (DataFrame [[(''date'', Str ''20250601''), (''value'', Str ''7'')]]) ! 0) <
       length [''date'', ''value''] + length [''value'']
   \<and> convert_response_to_dataframe
       [\<lparr>dimension_values = [''20250601'', ''x''], metric_values = [''7'']\<rparr>]
       [''date'', ''value''] [''value''] =
     Inr (DataFrame [[(''date'', Str ''20250601''), (''value'', Str ''7'')]])
   \<and> app_convert_to_dataframe
       [\<lparr>dimension_values = [''20250601'', ''x''], metric_values = [''7'']\<rparr>]
       [''date'', ''value''] [''value''] =
     Inr (DataFrame [[(''date'', Str ''20250601''), (''value'', Str ''7'')]])"
proof -
  let ?rows = "[\<lparr>dimension_values = [''20250601'', ''x''], metric_values = [''7'']\<rparr>]"
  let ?df = "DataFrame [[(''date'', Str ''20250601''), (''value'', Str ''7'')]]"
  have api: "convert_response_to_dataframe ?rows [''date'', ''value''] [''value''] = Inr ?df"
    by (simp add: convert_response_to_dataframe_eq row_fits_def api_record_def
          dict_or_assign_all pd_DataFrame_def)
  have app: "app_convert_to_dataframe ?rows [''date'', ''value''] [''value''] = Inr ?df"
    by (simp add: app_convert_to_dataframe_eq row_fits_def app_record_def pd_DataFrame_def)
  from tabulator_shared_name [OF api app, of "''value''" 0 0] api app
  show ?thesis by simp
qed

section \<open>The date coercion of get\_report\<close>

lemma digit_value_digit_char: "n < 10 \<Longrightarrow> digit_value (digit_char n) = Some n"
proof -
  assume "n < 10"
  then have "n \<in> set [0, 1, 2, 3, 4, 5, 6, 7, 8, 9]"
    by simp arith
  then show ?thesis
    by (auto simp: digit_value_def digit_char_def)
qed

lemma two_digits: "10 * ((n::nat) div 10 mod 10) + n mod 10 = n" if "n < 100"
proof -
  from that have "n div 10 < 10" by simp
  then have "n div 10 mod 10 = n div 10" by simp
  then show ?thesis by simp
qed

lemma four_digits:
  "10 * (10 * (10 * ((n::nat) div 1000 mod 10) + n div 100 mod 10) + n div 10 mod 10) + n mod 10 = n"
  if "n < 10000"
proof -
  from that have "n div 1000 < 10" by simp
  then have a: "n div 1000 mod 10 = n div 1000" by simp
  have "n div 1000 = n div 100 div 10" "n div 100 = n div 10 div 10"
    by (simp_all add: div_mult2_eq [symmetric])
  then have b: "10 * (n div 1000) + n div 100 mod 10 = n div 100"
    and c: "10 * (n div 100) + n div 10 mod 10 = n div 10"
    by simp_all
  show ?thesis
    by (simp only: a b c) simp
qed

lemma decimal_loop_two:
  assumes "n < 100"
  shows "decimal_loop 0 [digit_char (n div 10 mod 10), digit_char (n mod 10)] = Some n"
proof -
  have "decimal_loop 0 [digit_char (n div 10 mod 10), digit_char (n mod 10)] =
      Some (10 * (n div 10 mod 10) + n mod 10)"
    by (simp add: digit_value_digit_char)
  also have "10 * (n div 10 mod 10) + n mod 10 = n"
    using assms by (rule two_digits)
  finally show ?thesis .
qed

lemma decimal_loop_four:
  assumes "n < 10000"
  shows "decimal_loop 0 [digit_char (n div 1000 mod 10), digit_char (n div 100 mod 10),
                     digit_char (n div 10 mod 10), digit_char (n mod 10)] = Some n"
proof -
  have "decimal_loop 0 [digit_char (n div 1000 mod 10), digit_char (n div 100 mod 10),
                     digit_char (n div 10 mod 10), digit_char (n mod 10)] =
      Some (10 * (10 * (10 * (n div 1000 mod 10) + n div 100 mod 10) + n div 10 mod 10) + n mod 10)"
    by (simp add: digit_value_digit_char)
  also have "10 * (10 * (10 * (n div 1000 mod 10) + n div 100 mod 10) + n div 10 mod 10) + n mod 10 = n"
    using assms by (rule four_digits)
  finally show ?thesis .
qed

lemma days_in_month_le: "days_in_month y m \<le> 31"
  by (simp add: days_in_month_def)

lemma strptime_Ymd_yyyymmdd:
  assumes "valid_date y m d"
  shows "strptime_Ymd (yyyymmdd y m d) = Some (y, m, d)"
proof -
  from assms have y: "y < 10000" and m: "m < 100" and d: "d < 100"
    using days_in_month_le [of y m] by (simp_all add: valid_date_def)
  show ?thesis
    using assms decimal_loop_four [OF y] decimal_loop_two [OF m] decimal_loop_two [OF d]
    by (simp add: strptime_Ymd_def yyyymmdd_def)
qed

lemma to_datetime_Ymd_all:
  "\<forall>c \<in> set column. \<exists>v. to_datetime_cell c = Inr v \<Longrightarrow>
     to_datetime_Ymd column = Inr (map coerced column)"
  unfolding to_datetime_Ymd_def
  by (induction column) (auto simp: coerced_def)

lemma to_datetime_cell_yyyymmdd:
  "valid_date y m d \<Longrightarrow> to_datetime_cell (Some (Str (yyyymmdd y m d))) = Inr (Date y m d)"
  by (simp add: to_datetime_cell_def strptime_Ymd_yyyymmdd)

lemma zip_map_same: "map f (zip xs (map g xs)) = map (\<lambda>x. f (x, g x)) xs"
  by (induction xs) simp_all

lemma convert_dates_all_valid:
  assumes col: "''date'' \<in> set (df_columns df)"
    and cells: "\<forall>r \<in> set (df_records df). \<exists>v. to_datetime_cell (map_of r ''date'') = Inr v"
  shows "get_report_convert_dates True df =
           Inr (DataFrame (map (\<lambda>r. dict_setitem r ''date'' (coerced (map_of r ''date'')))
                             (df_records df)))"
proof -
  have "to_datetime_Ymd (df_getitem df ''date'') = Inr (map coerced (df_getitem df ''date''))"
    using cells by (intro to_datetime_Ymd_all) (simp add: df_getitem_def)
  then show ?thesis
    using col
    by (simp add: get_report_convert_dates_def df_setitem_def df_getitem_def zip_map_same
          map_map comp_def)
qed

lemma convert_dates_compact_cells:
  assumes col: "''date'' \<in> set (df_columns table)"
    and cells: "\<forall>r \<in> set (df_records table).
          \<exists>y m d. valid_date y m d \<and> map_of r ''date'' = Some (Str (yyyymmdd y m d))"
  shows "\<exists>table'. get_report_convert_dates True table = Inr table'
           \<and> length (df_records table') = length (df_records table)
           \<and> (\<forall>i<length (df_records table). \<forall>y m d.
                 valid_date y m d
                 \<and> map_of (df_records table ! i) ''date'' = Some (Str (yyyymmdd y m d))
                 \<longrightarrow> map_of (df_records table' ! i) ''date'' = Some (Date y m d))
           \<and> (\<forall>i<length (df_records table). \<forall>c. c \<noteq> ''date''
                 \<longrightarrow> map_of (df_records table' ! i) c = map_of (df_records table ! i) c)"
proof -
  let ?table' = "DataFrame (map (\<lambda>r. dict_setitem r ''date'' (coerced (map_of r ''date'')))
                             (df_records table))"
  have "\<forall>r \<in> set (df_records table). \<exists>v. to_datetime_cell (map_of r ''date'') = Inr v"
    using cells by (fastforce simp: to_datetime_cell_yyyymmdd)
  with col have res: "get_report_convert_dates True table = Inr ?table'"
    by (rule convert_dates_all_valid)
  have dates: "map_of (df_records ?table' ! i) ''date'' = Some (Date y m d)"
    if "i < length (df_records table)" "valid_date y m d"
       "map_of (df_records table ! i) ''date'' = Some (Str (yyyymmdd y m d))" for i y m d
    using that by (simp add: map_of_dict_setitem coerced_def to_datetime_cell_yyyymmdd)
  have others: "map_of (df_records ?table' ! i) c = map_of (df_records table ! i) c"
    if "i < length (df_records table)" "c \<noteq> ''date''" for i c
    using that by (simp add: map_of_dict_setitem)
  show ?thesis
  proof (intro exI [of _ ?table'] conjI allI impI)
    show "get_report_convert_dates True table = Inr ?table'" by (rule res)
    show "length (df_records ?table') = length (df_records table)" by simp
  next
    fix i y m d
    assume "i < length (df_records table)"
      and "valid_date y m d
           \<and> map_of (df_records table ! i) ''date'' = Some (Str (yyyymmdd y m d))"
    then show "map_of (df_records ?table' ! i) ''date'' = Some (Date y m d)"
      using dates by blast
  next
    fix i c
    assume "i < length (df_records table)" "c \<noteq> ''date''"
    then show "map_of (df_records ?table' ! i) c = map_of (df_records table ! i) c"
      by (rule others)
  qed
qed

lemma convert_dates_no_column:
  "''date'' \<notin> set (df_columns table) \<Longrightarrow> get_report_convert_dates flag table = Inr table"
  by (simp add: get_report_convert_dates_def)

text \<open>What \<open>get_report\<close> returns once its paginator and its tabulator have returned.\<close>

lemma get_report_produced:
  assumes "app_run_paginated_request self client sd ed (Some (or_empty dims))
             (Some (or_empty mets)) flt obs = Some (Inr all_data, calls)"
    and "app_convert_to_dataframe all_data (or_empty dims) (or_empty mets) = Inr table"
  shows "get_report self client sd ed dims mets flt obs flag =
           Some (get_report_convert_dates flag table, calls)"
  using assms by (simp add: get_report_def Let_def)

text \<open>
  Claim C9. Let the paginator of \<open>get_report\<close> return rows and its tabulator produce a
  table from them. With \<open>convert_date_columns\<close> set: when the produced table has a column
  named \<open>date\<close> whose cells are compact calendar dates YYYYMMDD, \<open>get_report\<close> returns,
  without an error, the table in which every such cell is the date of that calendar day
  (\<open>20250601\<close> becomes June 1, 2025) and every other column is unchanged. When the produced
  table has no column named \<open>date\<close>, \<open>get_report\<close> returns the produced table unchanged and
  raises no error.
\<close>

theorem get_report_date_coercion:
  "(app_run_paginated_request self client sd ed (Some (or_empty dims)) (Some (or_empty mets))
        flt obs = Some (Inr all_data, calls)
    \<and> app_convert_to_dataframe all_data (or_empty dims) (or_empty mets) = Inr table
    \<and> ''date'' \<in> set (df_columns table)
    \<and> (\<forall>r \<in> set (df_records table).
          \<exists>y m d. valid_date y m d \<and> map_of r ''date'' = Some (Str (yyyymmdd y m d)))
    \<longrightarrow> (\<exists>table'. get_report self client sd ed dims mets flt obs True = Some (Inr table', calls)
           \<and> length (df_records table') = length (df_records table)
           \<and> (\<forall>i<length (df_records table). \<forall>y m d.
                 valid_date y m d
                 \<and> map_of (df_records table ! i) ''date'' = Some (Str (yyyymmdd y m d))
                 \<longrightarrow> map_of (df_records table' ! i) ''date'' = Some (Date y m d))
           \<and> (\<forall>i<length (df_records table). \<forall>c. c \<noteq> ''date''
                 \<longrightarrow> map_of (df_records table' ! i) c = map_of (df_records table ! i) c)))
   \<and> (app_run_paginated_request self client sd ed (Some (or_empty dims)) (Some (or_empty mets))
        flt obs = Some (Inr all_data, calls)
      \<and> app_convert_to_dataframe all_data (or_empty dims) (or_empty mets) = Inr table
      \<and> ''date'' \<notin> set (df_columns table)
      \<longrightarrow> get_report self client sd ed dims mets flt obs flag = Some (Inr table, calls))
   \<and> yyyymmdd 2025 6 1 = ''20250601''
   \<and> to_datetime_cell (Some (Str ''20250601'')) = Inr (Date 2025 6 1)"
proof (intro conjI impI)
  assume a: "app_run_paginated_request self client sd ed (Some (or_empty dims))
        (Some (or_empty mets)) flt obs = Some (Inr all_data, calls)
    \<and> app_convert_to_dataframe all_data (or_empty dims) (or_empty mets) = Inr table
    \<and> ''date'' \<in> set (df_columns table)
    \<and> (\<forall>r \<in> set (df_records table).
          \<exists>y m d. valid_date y m d \<and> map_of r ''date'' = Some (Str (yyyymmdd y m d)))"
  then have report: "get_report self client sd ed dims mets flt obs True =
      Some (get_report_convert_dates True table, calls)"
    by (intro get_report_produced [where all_data = all_data and table = table]) simp_all
  from a have "''date'' \<in> set (df_columns table)"
    and "\<forall>r \<in> set (df_records table).
          \<exists>y m d. valid_date y m d \<and> map_of r ''date'' = Some (Str (yyyymmdd y m d))"
    by simp_all
  then obtain table' where "get_report_convert_dates True table = Inr table'"
    and "length (df_records table') = length (df_records table)"
    and "\<forall>i<length (df_records table). \<forall>y m d.
                 valid_date y m d
                 \<and> map_of (df_records table ! i) ''date'' = Some (Str (yyyymmdd y m d))
                 \<longrightarrow> map_of (df_records table' ! i) ''date'' = Some (Date y m d)"
    and "\<forall>i<length (df_records table). \<forall>c. c \<noteq> ''date''
                 \<longrightarrow> map_of (df_records table' ! i) c = map_of (df_records table ! i) c"
    using convert_dates_compact_cells [of table] by blast
  with report show "\<exists>table'. get_report self client sd ed dims mets flt obs True =
             Some (Inr table', calls)
           \<and> length (df_records table') = length (df_records table)
           \<and> (\<forall>i<length (df_records table). \<forall>y m d.
                 valid_date y m d
                 \<and> map_of (df_records table ! i) ''date'' = Some (Str (yyyymmdd y m d))
                 \<longrightarrow> map_of (df_records table' ! i) ''date'' = Some (Date y m d))
           \<and> (\<forall>i<length (df_records table). \<forall>c. c \<noteq> ''date''
                 \<longrightarrow> map_of (df_records table' ! i) c = map_of (df_records table ! i) c)"
    by (intro exI [of _ table']) simp
next
  assume a: "app_run_paginated_request self client sd ed (Some (or_empty dims))
        (Some (or_empty mets)) flt obs = Some (Inr all_data, calls)
      \<and> app_convert_to_dataframe all_data (or_empty dims) (or_empty mets) = Inr table
      \<and> ''date'' \<notin> set (df_columns table)"
  then have "get_report self client sd ed dims mets flt obs flag =
      Some (get_report_convert_dates flag table, calls)"
    by (intro get_report_produced [where all_data = all_data and table = table]) simp_all
  with a show "get_report self client sd ed dims mets flt obs flag = Some (Inr table, calls)"
    by (simp add: convert_dates_no_column)
next
  show "yyyymmdd 2025 6 1 = ''20250601''"
    by (simp add: yyyymmdd_def digit_char_def)
  show "to_datetime_cell (Some (Str ''20250601'')) = Inr (Date 2025 6 1)"
    using to_datetime_cell_yyyymmdd [of 2025 6 1]
    by (simp add: valid_date_def days_in_month_def yyyymmdd_def digit_char_def)
qed

theorem get_report_date_coercion_witness:
  "(\<exists>table'. get_report \<lparr>self_credentials_path = None, self_property_id = Some ''123''\<rparr>
               dated_client ''2025-06-01'' ''today'' (Some [''date'']) (Some [''sessions''])
               None None True =
             Some (Inr table',
                   map (app_page_request
                          \<lparr>self_credentials_path = None, self_property_id = Some ''123''\<rparr>
                          ''2025-06-01'' ''today'' (Some [''date'']) (Some [''sessions''])
                          None None) [0, 1])
         \<and> length (df_records table') = 2
         \<and> map_of (df_records table' ! 0) ''date'' = Some (Date 2025 6 1)
         \<and> map_of (df_records table' ! 1) ''date'' = Some (Date 2025 12 31)
         \<and> map_of (df_records table' ! 0) ''sessions'' = Some (Str ''7'')
         \<and> map_of (df_records table' ! 1) ''sessions'' = Some (Str ''12''))
   \<and> get_report \<lparr>self_credentials_path = None, self_property_id = Some ''123''\<rparr>
       dated_client ''2025-06-01'' ''today'' (Some [''day'']) (Some [''sessions''])
       None None True =
     Some (Inr (DataFrame [[(''day'', Str ''20250601''), (''sessions'', Str ''7'')],
                           [(''day'', Str ''20251231''), (''sessions'', Str ''12'')]]),
           map (app_page_request
                  \<lparr>self_credentials_path = None, self_property_id = Some ''123''\<rparr>
                  ''2025-06-01'' ''today'' (Some [''day'']) (Some [''sessions''])
                  None None) [0, 1])"
proof -
  let ?self = "\<lparr>self_credentials_path = None, self_property_id = Some ''123''\<rparr>"
  let ?req = "\<lambda>name. app_page_request ?self ''2025-06-01'' ''today'' (Some [name])
                 (Some [''sessions'']) None None"
  let ?table = "\<lambda>name. DataFrame [[(name, Str ''20250601''), (''sessions'', Str ''7'')],
                                  [(name, Str ''20251231''), (''sessions'', Str ''12'')]]"
  have pages: "app_run_paginated_request ?self dated_client ''2025-06-01'' ''today''
      (Some (or_empty (Some [name]))) (Some (or_empty (Some [''sessions'']))) None None =
      Some (Inr dated_rows, map (?req name) [0, 1])" for name
    using app_run_paginated_request_ends
      [where client = dated_client and self = ?self and sd = "''2025-06-01''"
         and ed = "''today''" and dims = "Some [name]" and mets = "Some [''sessions'']"
         and df = None and obs = None and pages = "[dated_rows]"]
    by (simp add: answers_with_pages_def dated_client_def dated_rows_def or_empty_def
          app_page_request_def app_create_request_def Let_def app_MAX_ROWS_PER_REQUEST_def)
  have tab: "app_convert_to_dataframe dated_rows (or_empty (Some [name]))
      (or_empty (Some [''sessions''])) = Inr (?table name)" if "name \<noteq> ''sessions''" for name
    using that
    by (simp add: app_convert_to_dataframe_def app_row_dict_def py_getitem_def dated_rows_def
          or_empty_def pd_DataFrame_def)
  have v1: "valid_date 2025 6 1" and v2: "valid_date 2025 12 31"
    by (simp_all add: valid_date_def days_in_month_def)
  have s1: "yyyymmdd 2025 6 1 = ''20250601''" and s2: "yyyymmdd 2025 12 31 = ''20251231''"
    by (simp_all add: yyyymmdd_def digit_char_def)
  have col: "''date'' \<in> set (df_columns (?table ''date''))"
    by (simp add: df_columns_def)
  have nocol: "''date'' \<notin> set (df_columns (?table ''day''))"
    by (simp add: df_columns_def)
  have c1: "\<exists>y m d. valid_date y m d \<and> Some (Str ''20250601'') = Some (Str (yyyymmdd y m d))"
    using v1 s1 by (intro exI [of _ 2025] exI [of _ 6] exI [of _ 1]) simp
  have c2: "\<exists>y m d. valid_date y m d \<and> Some (Str ''20251231'') = Some (Str (yyyymmdd y m d))"
    using v2 s2 by (intro exI [of _ 2025] exI [of _ 12] exI [of _ 31]) simp
  have cells: "\<forall>r \<in> set (df_records (?table ''date'')).
      \<exists>y m d. valid_date y m d \<and> map_of r ''date'' = Some (Str (yyyymmdd y m d))"
    using c1 c2 by simp
  from get_report_date_coercion
    [where self = ?self and client = dated_client and sd = "''2025-06-01''" and ed = "''today''"
       and dims = "Some [''date'']" and mets = "Some [''sessions'']" and flt = None
       and obs = None and all_data = dated_rows and calls = "map (?req ''date'') [0, 1]"
       and table = "?table ''date''"]
    pages [of "''date''"] tab [of "''date''"] col cells
  obtain table' where r: "get_report ?self dated_client ''2025-06-01'' ''today''
        (Some [''date'']) (Some [''sessions'']) None None True =
        Some (Inr table', map (?req ''date'') [0, 1])"
    and l: "length (df_records table') = length (df_records (?table ''date''))"
    and d: "\<forall>i<length (df_records (?table ''date'')). \<forall>y m d.
                 valid_date y m d
                 \<and> map_of (df_records (?table ''date'') ! i) ''date'' =
                     Some (Str (yyyymmdd y m d))
                 \<longrightarrow> map_of (df_records table' ! i) ''date'' = Some (Date y m d)"
    and o: "\<forall>i<length (df_records (?table ''date'')). \<forall>c. c \<noteq> ''date''
                 \<longrightarrow> map_of (df_records table' ! i) c =
                     map_of (df_records (?table ''date'') ! i) c"
    by blast
  from l have "length (df_records table') = 2"
    by simp
  moreover from d v1 s1 have "map_of (df_records table' ! 0) ''date'' = Some (Date 2025 6 1)"
    by simp
  moreover from d v2 s2 have "map_of (df_records table' ! 1) ''date'' = Some (Date 2025 12 31)"
    by simp
  moreover from o have "map_of (df_records table' ! 0) ''sessions'' = Some (Str ''7'')"
    by simp
  moreover from o have "map_of (df_records table' ! 1) ''sessions'' = Some (Str ''12'')"
    by simp
  moreover have "get_report ?self dated_client ''2025-06-01'' ''today''
        (Some [''day'']) (Some [''sessions'']) None None True =
        Some (Inr (?table ''day''), map (?req ''day'') [0, 1])"
    using get_report_date_coercion
      [where self = ?self and client = dated_client and sd = "''2025-06-01''"
         and ed = "''today''" and dims = "Some [''day'']" and mets = "Some [''sessions'']"
         and flt = None and obs = None and all_data = dated_rows
         and calls = "map (?req ''day'') [0, 1]" and table = "?table ''day''" and flag = True]
      pages [of "''day''"] tab [of "''day''"] nocol
    by blast
  ultimately show ?thesis
    using r by blast
qed

end
